theory Spec2Isabelle
  imports Main "HOL-Library.Sublist"
begin

section \<open>JavaScript strings\<close>

text \<open>
  Source strings are modelled as \<open>string\<close> (lists of 8-bit characters); the texts the
  properties below talk about are ASCII. The helpers follow the \<open>String.prototype\<close>
  methods the sources call: \<open>split\<close> with a one-character separator, \<open>Array.join\<close>,
  \<open>trim\<close>, \<open>includes\<close>, \<open>substring(0, n)\<close> (which is \<open>take n\<close>), \<open>startsWith\<close> and
  \<open>endsWith\<close> (\<open>prefix\<close> and \<open>suffix\<close>).
\<close>

abbreviation newline :: char where "newline \<equiv> CHR 0x0A"
abbreviation backslash :: char where "backslash \<equiv> CHR 0x5C"
abbreviation dquote :: char where "dquote \<equiv> CHR 0x22"
abbreviation backtick :: char where "backtick \<equiv> CHR 0x60"

text \<open>\<open>s.split(d)\<close>: the empty string splits into one empty piece, as in JavaScript.
  The \<open>[]\<close> branch of the inner case is unreachable (the result is never empty).\<close>

fun splitOn :: "char \<Rightarrow> string \<Rightarrow> string list" where
  "splitOn d [] = [[]]"
| "splitOn d (c # cs) =
     (if c = d then [] # splitOn d cs
      else (case splitOn d cs of [] \<Rightarrow> [[c]] | l # ls \<Rightarrow> (c # l) # ls))"

text \<open>\<open>xs.join(sep)\<close>.\<close>

fun joinWith :: "string \<Rightarrow> string list \<Rightarrow> string" where
  "joinWith sep [] = []"
| "joinWith sep [x] = x"
| "joinWith sep (x # y # ys) = x @ sep @ joinWith sep (y # ys)"

definition isSpace :: "char \<Rightarrow> bool" where
  "isSpace c \<longleftrightarrow> c \<in> set [CHR '' '', CHR 0x09, CHR 0x0A, CHR 0x0B, CHR 0x0C, CHR 0x0D, CHR 0xA0]"

definition trim :: "string \<Rightarrow> string" where
  "trim s = rev (dropWhile isSpace (rev (dropWhile isSpace s)))"

fun includesStr :: "string \<Rightarrow> string \<Rightarrow> bool" where
  "includesStr [] sub = (sub = [])"
| "includesStr (c # cs) sub = (prefix sub (c # cs) \<or> includesStr cs sub)"

text \<open>Template-literal printing of a non-negative integer and of an integer.\<close>

function showNat :: "nat \<Rightarrow> string" where
  "showNat n =
     (if n < 10 then [''0123456789'' ! n]
      else showNat (n div 10) @ [''0123456789'' ! (n mod 10)])"
  by pat_completeness auto
termination
  by (relation "measure (\<lambda>n. n)") auto

definition showInt :: "int \<Rightarrow> string" where
  "showInt i = (if i < 0 then ''-'' @ showNat (nat (- i)) else showNat (nat i))"

text \<open>Truthiness of an optional string: \<open>undefined\<close> and \<open>''\<close> are falsy.\<close>

fun truthy :: "string option \<Rightarrow> bool" where
  "truthy None = False"
| "truthy (Some s) = (s \<noteq> [])"

text \<open>\<open>x || d\<close> on an optional string.\<close>

fun orElse :: "string option \<Rightarrow> string \<Rightarrow> string" where
  "orElse None d = d"
| "orElse (Some s) d = (if s = [] then d else s)"

text \<open>Template-literal printing of an optional string: \<open>undefined\<close> prints as such.\<close>

fun showOpt :: "string option \<Rightarrow> string" where
  "showOpt None = ''undefined''"
| "showOpt (Some s) = s"

datatype js_error = TypeError | ThrownError string


section \<open>Data model (\<open>lib/types.ts\<close>)\<close>

text \<open>
  Field names follow the interfaces. Where one name is used by several interfaces, or
  clashes with a constant of HOL, the record field carries a prefix: \<open>DOMEvent.id\<close> is
  \<open>eventId\<close>, \<open>DOMEvent.type\<close> is \<open>etype\<close>, \<open>ElementDescriptor.id\<close> is \<open>elemId\<close>,
  \<open>RedactionRule.id\<close> and \<open>.type\<close> are \<open>ruleId\<close> and \<open>ruleType\<close>,
  \<open>NavigationPayload.type\<close> is \<open>navType\<close>. An optional field is an \<open>option\<close>.
  A \<open>Record<string, string>\<close> is an association list in insertion order.
\<close>

record DOMFragment =
  html :: string
  "text" :: string
  attributes :: "(string \<times> string) list"

record ElementDescriptor =
  tagName :: string
  elemId :: "string option"
  classes :: "string list"
  role :: "string option"
  label :: "string option"
  xpath :: string
  cssSelector :: string
  boundingRect :: "(int \<times> int \<times> int \<times> int) option"

datatype MutationType = ChildList | Attributes | CharacterData

record MutationPayload =
  mutationType :: MutationType
  addedNodes :: "DOMFragment list option"
  removedNodes :: "DOMFragment list option"
  attributeName :: "string option"
  oldValue :: "string option"
  newValue :: "string option"
  parentHTMLBefore :: "string option"
  parentHTMLAfter :: "string option"

record ClickPayload =
  button :: int
  coordinates :: "int \<times> int"
  ctrl :: bool
  shift :: bool
  alt :: bool
  meta :: bool

record InputPayload =
  inputType :: string
  "value" :: string
  selectionStart :: "nat option"
  selectionEnd :: "nat option"

record ScrollPayload =
  scrollX :: int
  scrollY :: int

datatype NavigationType = PushState | ReplaceState | Popstate | Hashchange | Pageload

record NavigationPayload =
  url :: string
  navType :: NavigationType
  initialHTML :: "string option"

record FocusPayload =
  focused :: bool

record ErrorPayload =
  message :: string
  stack :: "string option"
  source :: "string option"
  lineno :: "nat option"
  colno :: "nat option"

datatype EventPayload =
    Mutation MutationPayload
  | Click ClickPayload
  | Input InputPayload
  | Scroll ScrollPayload
  | Navigation NavigationPayload
  | Focus FocusPayload
  | Error ErrorPayload

datatype EventType =
    MutationAdd | MutationRemove | MutationAttribute | MutationText
  | UserClick | UserInput | UserScroll | UserNavigation | UserFocus | UserBlur
  | NetworkXhr | NetworkFetch | ErrorJs | ErrorConsole

record DOMEvent =
  eventId :: string
  sessionId :: string
  timestamp :: int
  sequence :: nat
  etype :: EventType
  target :: ElementDescriptor
  payload :: EventPayload
  domSnapshot :: "DOMFragment option"

datatype RuleType = InputTypeRule | RegexRule | SelectorRule | AttributeRule

record RedactionRule =
  ruleId :: string
  name :: string
  ruleType :: RuleType
  pattern :: string
  replacement :: string
  enabled :: bool

datatype DiffMode = LineMode | ElementMode

record ExportConfig =
  maxInitialHTMLSize :: nat
  diffMode :: DiffMode
  includeParentContext :: bool

record SessionConfig =
  redactionRules :: "RedactionRule list"
  captureScrollEvents :: bool
  captureMouseMovement :: bool
  debounceMs :: nat
  maxEventsPerMinute :: nat
  exportConfig :: "ExportConfig option"

fun typeName :: "EventType \<Rightarrow> string" where
  "typeName MutationAdd = ''mutation:add''"
| "typeName MutationRemove = ''mutation:remove''"
| "typeName MutationAttribute = ''mutation:attribute''"
| "typeName MutationText = ''mutation:text''"
| "typeName UserClick = ''user:click''"
| "typeName UserInput = ''user:input''"
| "typeName UserScroll = ''user:scroll''"
| "typeName UserNavigation = ''user:navigation''"
| "typeName UserFocus = ''user:focus''"
| "typeName UserBlur = ''user:blur''"
| "typeName NetworkXhr = ''network:xhr''"
| "typeName NetworkFetch = ''network:fetch''"
| "typeName ErrorJs = ''error:js''"
| "typeName ErrorConsole = ''error:console''"

fun navTypeName :: "NavigationType \<Rightarrow> string" where
  "navTypeName PushState = ''pushState''"
| "navTypeName ReplaceState = ''replaceState''"
| "navTypeName Popstate = ''popstate''"
| "navTypeName Hashchange = ''hashchange''"
| "navTypeName Pageload = ''pageload''"


section \<open>Markdown helpers (\<open>lib/export/templates.ts\<close>)\<close>

definition escapeMarkdown :: "string \<Rightarrow> string" where
  "escapeMarkdown t =
     concat (map (\<lambda>c. if c \<in> set ''*_`[]()#>'' then [backslash, c] else [c]) t)"

definition codeBlock :: "string \<Rightarrow> string \<Rightarrow> string" where
  "codeBlock content language = ''```'' @ language @ [newline] @ content @ [newline] @ ''```''"

text \<open>\<open>truncate\<close> (named \<open>truncateStr\<close> here: every record declares a \<open>truncate\<close> of
  its own). \<open>substring(0, maxLength - 3)\<close> clamps a negative end to 0, as the subtraction on
  \<open>nat\<close> does.\<close>

definition truncateStr :: "string \<Rightarrow> nat \<Rightarrow> string" where
  "truncateStr t maxLength =
     (if length t \<le> maxLength then t else take (maxLength - 3) t @ ''...'')"

definition formatUnifiedDiff :: "string \<Rightarrow> string \<Rightarrow> string" where
  "formatUnifiedDiff before after =
     (let beforeLines = splitOn newline before;
          afterLines = splitOn newline after;
          removed = map (\<lambda>line. ''- '' @ line) (filter (\<lambda>line. line \<notin> set afterLines) beforeLines);
          added = map (\<lambda>line. ''+ '' @ line) (filter (\<lambda>line. line \<notin> set beforeLines) afterLines)
      in joinWith [newline] (removed @ added))"

definition formatAddedDiff :: "string \<Rightarrow> string" where
  "formatAddedDiff h = joinWith [newline] (map (\<lambda>line. ''+ '' @ line) (splitOn newline h))"

definition formatRemovedDiff :: "string \<Rightarrow> string" where
  "formatRemovedDiff h = joinWith [newline] (map (\<lambda>line. ''- '' @ line) (splitOn newline h))"

definition formatAttributeDiff :: "string \<Rightarrow> string \<Rightarrow> string \<Rightarrow> string" where
  "formatAttributeDiff nm oldVal newVal =
     ''- '' @ nm @ ''='' @ [dquote] @ oldVal @ [dquote] @ [newline] @
     ''+ '' @ nm @ ''='' @ [dquote] @ newVal @ [dquote]"


section \<open>Event descriptions (\<open>MarkdownExporter\<close>)\<close>

record ExportOptions =
  includeReproductionSteps :: bool
  maxDOMFragmentLength :: nat
  groupMutations :: bool
  optionsExportConfig :: "ExportConfig option"

definition DEFAULT_OPTIONS :: ExportOptions where
  "DEFAULT_OPTIONS =
     \<lparr>includeReproductionSteps = True, maxDOMFragmentLength = 500, groupMutations = True,
      optionsExportConfig = None\<rparr>"

text \<open>
  \<open>event.payload as MutationPayload\<close>: the exporter reads only optional fields of the
  payload, and on a payload of another kind each of them is \<open>undefined\<close>.
\<close>

definition asMutation :: "EventPayload \<Rightarrow> MutationPayload" where
  "asMutation p =
     (case p of
        Mutation m \<Rightarrow> m
      | _ \<Rightarrow> \<lparr>mutationType = ChildList, addedNodes = None, removedNodes = None,
              attributeName = None, oldValue = None, newValue = None,
              parentHTMLBefore = None, parentHTMLAfter = None\<rparr>)"

datatype DiffKind = AddDiff | RemoveDiff

definition diffFence :: "string \<Rightarrow> string" where
  "diffFence content = ''```diff'' @ [newline] @ content @ [newline] @ ''```''"

text \<open>The fallback of \<open>renderMutationDiff\<close>: the fragments with a \<open>+\<close> or \<open>-\<close> prefix.\<close>

definition renderNodesDiff :: "ExportOptions \<Rightarrow> MutationPayload \<Rightarrow> DiffKind \<Rightarrow> string option" where
  "renderNodesDiff opts p kind =
     (case (kind, addedNodes p, removedNodes p) of
        (AddDiff, Some (n # ns), _) \<Rightarrow>
          Some (diffFence (joinWith [newline]
            (map (\<lambda>f. formatAddedDiff (truncateStr (html f) (maxDOMFragmentLength opts))) (n # ns))))
      | (RemoveDiff, _, Some (n # ns)) \<Rightarrow>
          Some (diffFence (joinWith [newline]
            (map (\<lambda>f. formatRemovedDiff (truncateStr (html f) (maxDOMFragmentLength opts))) (n # ns))))
      | _ \<Rightarrow> None)"

definition renderMutationDiff :: "ExportOptions \<Rightarrow> MutationPayload \<Rightarrow> DiffKind \<Rightarrow> string option" where
  "renderMutationDiff opts p kind =
     (case (parentHTMLBefore p, parentHTMLAfter p) of
        (Some b, Some a) \<Rightarrow>
          (if b \<noteq> [] \<and> a \<noteq> [] \<and> formatUnifiedDiff b a \<noteq> []
           then Some (diffFence (formatUnifiedDiff b a))
           else renderNodesDiff opts p kind)
      | _ \<Rightarrow> renderNodesDiff opts p kind)"

definition targetLabelOf :: "DOMEvent \<Rightarrow> string" where
  "targetLabelOf event =
     (if truthy (label (target event))
      then ''**'' @ [dquote] @ escapeMarkdown (truncateStr (showOpt (label (target event))) 50) @ [dquote] @ ''**''
      else ''**'' @ tagName (target event) @ ''**'')"

definition selectorOf :: "DOMEvent \<Rightarrow> string" where
  "selectorOf event = ''('' @ [backtick] @ cssSelector (target event) @ [backtick] @ '')''"

definition modifierSuffix :: "ClickPayload \<Rightarrow> string" where
  "modifierSuffix p =
     (if ctrl p \<or> shift p \<or> alt p \<or> meta p
      then '' with '' @ joinWith ''+''
             ((if ctrl p then [''Ctrl''] else []) @ (if shift p then [''Shift''] else []) @
              (if alt p then [''Alt''] else []) @ (if meta p then [''Meta''] else []))
      else [])"

definition looksRedacted :: "string \<Rightarrow> bool" where
  "looksRedacted v \<longleftrightarrow> prefix ''['' v \<and> suffix '']'' v"

definition withDiffBlock :: "string \<Rightarrow> string option \<Rightarrow> string" where
  "withDiffBlock desc diffBlock =
     (case diffBlock of
        Some d \<Rightarrow> if d \<noteq> [] then desc @ [newline, newline] @ d else desc
      | None \<Rightarrow> desc)"

text \<open>
  \<open>describeEvent\<close>. The click and input cases read \<open>payload.modifiers.ctrl\<close> and
  \<open>payload.value.startsWith\<close>, which throw a \<open>TypeError\<close> on a payload of another kind;
  the other cases print \<open>undefined\<close> or take the falsy branch there.
\<close>

definition describeEvent :: "ExportOptions \<Rightarrow> DOMEvent \<Rightarrow> js_error + string" where
  "describeEvent opts event =
     (case etype event of
        UserClick \<Rightarrow>
          (case payload event of
             Click p \<Rightarrow>
               Inr (''User clicked '' @ targetLabelOf event @ '' '' @ selectorOf event @ modifierSuffix p)
           | _ \<Rightarrow> Inl TypeError)
      | UserInput \<Rightarrow>
          (case payload event of
             Input p \<Rightarrow>
               Inr (''User typed in **'' @ [dquote] @
                    escapeMarkdown (orElse (label (target event)) ''input field'') @ [dquote] @ ''** '' @
                    selectorOf event @
                    (if looksRedacted (value p)
                     then [newline, newline] @ ''**Value:** '' @ [backtick] @ value p @ [backtick] @ '' *(redacted)*''
                     else if value p \<noteq> []
                     then [newline, newline] @ ''**Value:** '' @ [backtick] @
                          escapeMarkdown (truncateStr (value p) 100) @ [backtick]
                     else []))
           | _ \<Rightarrow> Inl TypeError)
      | UserFocus \<Rightarrow>
          Inr (''User '' @
               (case payload event of Focus p \<Rightarrow> if focused p then ''focused on'' else ''left'' | _ \<Rightarrow> ''left'') @
               '' '' @ targetLabelOf event @ '' '' @ selectorOf event)
      | UserBlur \<Rightarrow>
          Inr (''User '' @
               (case payload event of Focus p \<Rightarrow> if focused p then ''focused on'' else ''left'' | _ \<Rightarrow> ''left'') @
               '' '' @ targetLabelOf event @ '' '' @ selectorOf event)
      | UserScroll \<Rightarrow>
          Inr (case payload event of
                 Scroll p \<Rightarrow> ''Scrolled to position ('' @ showInt (scrollX p) @ '', '' @ showInt (scrollY p) @ '')''
               | _ \<Rightarrow> ''Scrolled to position (undefined, undefined)'')
      | UserNavigation \<Rightarrow>
          Inr (case payload event of
                 Navigation p \<Rightarrow>
                   ''Navigated to: '' @ [backtick] @ url p @ [backtick] @ '' ('' @ navTypeName (navType p) @ '')''
               | _ \<Rightarrow> ''Navigated to: '' @ [backtick] @ ''undefined'' @ [backtick] @ '' (undefined)'')
      | MutationAdd \<Rightarrow>
          (let p = asMutation (payload event);
               count = (case addedNodes p of Some ns \<Rightarrow> length ns | None \<Rightarrow> 0)
           in Inr (withDiffBlock
                (showNat count @ '' element'' @ (if count \<noteq> 1 then ''s'' else []) @ '' added to '' @
                 selectorOf event)
                (renderMutationDiff opts p AddDiff)))
      | MutationRemove \<Rightarrow>
          (let p = asMutation (payload event);
               count = (case removedNodes p of Some ns \<Rightarrow> length ns | None \<Rightarrow> 0)
           in Inr (withDiffBlock
                (showNat count @ '' element'' @ (if count \<noteq> 1 then ''s'' else []) @ '' removed from '' @
                 selectorOf event)
                (renderMutationDiff opts p RemoveDiff)))
      | MutationAttribute \<Rightarrow>
          (let p = asMutation (payload event)
           in Inr (''Attribute '' @ [backtick] @ showOpt (attributeName p) @ [backtick] @ '' changed on '' @
                   targetLabelOf event @ [newline, newline] @
                   diffFence (formatAttributeDiff (orElse (attributeName p) ''unknown'')
                                (orElse (oldValue p) []) (orElse (newValue p) []))))
      | MutationText \<Rightarrow>
          (let p = asMutation (payload event)
           in Inr (''Text content changed in '' @ targetLabelOf event @ [newline, newline] @
                   diffFence (formatUnifiedDiff (orElse (oldValue p) []) (orElse (newValue p) []))))
      | _ \<Rightarrow> Inr (''Event: '' @ typeName (etype event)))"


text \<open>An added paragraph in the contact form, captured without parent context.\<close>

definition exampleAddedFragment :: DOMFragment where
  "exampleAddedFragment = \<lparr>html = ''<p>Sent</p>'', text = ''Sent'', attributes = []\<rparr>"

definition exampleAddedPayload :: MutationPayload where
  "exampleAddedPayload =
     \<lparr>mutationType = ChildList, addedNodes = Some [exampleAddedFragment],
      removedNodes = None, attributeName = None, oldValue = None, newValue = None,
      parentHTMLBefore = None, parentHTMLAfter = None\<rparr>"

definition exampleAddedEvent :: DOMEvent where
  "exampleAddedEvent =
     \<lparr>eventId = ''e1'', sessionId = ''s1'', timestamp = 2512, sequence = 1, etype = MutationAdd,
      target = \<lparr>tagName = ''form'', elemId = None, classes = [], role = Some ''form'',
                label = None, xpath = ''/html[1]/body[1]/form[1]'',
                cssSelector = ''form#contact-form'', boundingRect = None\<rparr>,
      payload = Mutation exampleAddedPayload,
      domSnapshot = None\<rparr>"


section \<open>The redaction engine (\<open>RedactionEngine\<close>)\<close>

definition DEFAULT_REDACTION_RULES :: "RedactionRule list" where
  "DEFAULT_REDACTION_RULES =
     [\<lparr>ruleId = ''input-password'', name = ''Password fields'', ruleType = InputTypeRule,
       pattern = ''password'', replacement = ''[PASSWORD]'', enabled = True\<rparr>,
      \<lparr>ruleId = ''input-hidden'', name = ''Hidden inputs'', ruleType = InputTypeRule,
       pattern = ''hidden'', replacement = ''[HIDDEN]'', enabled = True\<rparr>,
      \<lparr>ruleId = ''regex-email'', name = ''Email addresses'', ruleType = RegexRule,
       pattern = ''[a-zA-Z0-9._%+-]+@[a-zA-Z0-9.-]+'' @ [backslash] @ ''.[a-zA-Z]{2,}'',
       replacement = ''[EMAIL]'', enabled = True\<rparr>,
      \<lparr>ruleId = ''regex-phone'', name = ''Phone numbers'', ruleType = RegexRule,
       pattern = ''('' @ [backslash] @ ''+?1?[-.'' @ [backslash] @ ''s]?)?('' @ [backslash] @ ''(?'' @
                 [backslash] @ ''d{3}'' @ [backslash] @ '')?[-.'' @ [backslash] @ ''s]?)?'' @
                 [backslash] @ ''d{3}[-.'' @ [backslash] @ ''s]?'' @ [backslash] @ ''d{4}'',
       replacement = ''[PHONE]'', enabled = True\<rparr>,
      \<lparr>ruleId = ''regex-ssn'', name = ''Social Security Numbers'', ruleType = RegexRule,
       pattern = [backslash] @ ''b'' @ [backslash] @ ''d{3}-'' @ [backslash] @ ''d{2}-'' @
                 [backslash] @ ''d{4}'' @ [backslash] @ ''b'',
       replacement = ''[SSN]'', enabled = True\<rparr>,
      \<lparr>ruleId = ''regex-credit-card'', name = ''Credit card numbers'', ruleType = RegexRule,
       pattern = [backslash] @ ''b(?:'' @ [backslash] @ ''d{4}[- ]?){3}'' @ [backslash] @ ''d{4}'' @
                 [backslash] @ ''b'',
       replacement = ''[CARD]'', enabled = True\<rparr>,
      \<lparr>ruleId = ''regex-ip-address'', name = ''IP addresses'', ruleType = RegexRule,
       pattern = [backslash] @ ''b(?:'' @ [backslash] @ ''d{1,3}'' @ [backslash] @ ''.){3}'' @
                 [backslash] @ ''d{1,3}'' @ [backslash] @ ''b'',
       replacement = ''[IP]'', enabled = False\<rparr>,
      \<lparr>ruleId = ''selector-cvv'', name = ''CVV fields'', ruleType = SelectorRule,
       pattern = ''input[name*='' @ [dquote] @ ''cvv'' @ [dquote] @ ''], input[name*='' @ [dquote] @
                 ''cvc'' @ [dquote] @ ''], input[autocomplete='' @ [dquote] @ ''cc-csc'' @ [dquote] @ '']'',
       replacement = ''[CVV]'', enabled = True\<rparr>,
      \<lparr>ruleId = ''attr-auth-token'', name = ''Auth tokens'', ruleType = AttributeRule,
       pattern = ''data-token,data-auth,data-session,data-csrf'',
       replacement = ''[TOKEN]'', enabled = True\<rparr>]"

text \<open>
  A compiled regular expression \<open>new RegExp(pattern, 'gi')\<close> is used in one way only:
  \<open>text.replace(regex, replacement)\<close>. It is modelled as that function, from the text and
  the replacement to the result. The constructor is a built-in of the language and a
  parameter \<open>mk\<close> of \<open>loadRules\<close>: \<open>mk pattern = None\<close> when the constructor throws.
\<close>

type_synonym RegExp = "string \<Rightarrow> string \<Rightarrow> string"

record RedactionEngine =
  rules :: "RedactionRule list"
  compiledRegex :: "string \<rightharpoonup> RegExp"

fun compileRules ::
  "(string \<Rightarrow> RegExp option) \<Rightarrow> RedactionRule list \<Rightarrow> (string \<rightharpoonup> RegExp) \<Rightarrow> (string \<rightharpoonup> RegExp)" where
  "compileRules mk [] m = m"
| "compileRules mk (rule # rs) m =
     compileRules mk rs
       (if ruleType rule = RegexRule \<and> enabled rule
        then (case mk (pattern rule) of Some regex \<Rightarrow> m(ruleId rule \<mapsto> regex) | None \<Rightarrow> m)
        else m)"

definition loadRules :: "(string \<Rightarrow> RegExp option) \<Rightarrow> RedactionRule list option \<Rightarrow> RedactionEngine" where
  "loadRules mk customRules =
     (let rs = DEFAULT_REDACTION_RULES @ (case customRules of Some cs \<Rightarrow> cs | None \<Rightarrow> [])
      in \<lparr>rules = rs, compiledRegex = compileRules mk rs Map.empty\<rparr>)"

text \<open>The loop of \<open>redactText\<close>: each rule runs on the output of the rules before it.\<close>

fun redactLoop :: "(string \<rightharpoonup> RegExp) \<Rightarrow> RedactionRule list \<Rightarrow> string \<Rightarrow> string" where
  "redactLoop cr [] result = result"
| "redactLoop cr (rule # rs) result =
     redactLoop cr rs
       (if \<not> enabled rule \<or> ruleType rule \<noteq> RegexRule then result
        else (case cr (ruleId rule) of
                Some regex \<Rightarrow> regex result (replacement rule)
              | None \<Rightarrow> result))"

definition redactText :: "RedactionEngine \<Rightarrow> string \<Rightarrow> string" where
  "redactText eng t = redactLoop (compiledRegex eng) (rules eng) t"

definition isWordChar :: "char \<Rightarrow> bool" where
  "isWordChar c \<longleftrightarrow>
     c \<in> set ''abcdefghijklmnopqrstuvwxyzABCDEFGHIJKLMNOPQRSTUVWXYZ0123456789_''"

text \<open>
  \<open>pattern.match(/\[(\w+)([*^$]?)="([^"]+)"\]/)\<close>: the three groups of the leftmost match.
  \<open>attrMatchAt\<close> matches at the head of the string; since neither \<open>\w+\<close> nor \<open>[^"]+\<close> can
  give a character back to what follows it, the greedy choice is the only one.
\<close>

definition attrMatchAt :: "string \<Rightarrow> (string \<times> string \<times> string) option" where
  "attrMatchAt s =
     (case s of
        [] \<Rightarrow> None
      | c # cs \<Rightarrow>
          if c \<noteq> CHR ''['' then None
          else
            (let attr = takeWhile isWordChar cs; r1 = dropWhile isWordChar cs;
                 op = (case r1 of [] \<Rightarrow> [] | o1 # _ \<Rightarrow> if o1 \<in> set ''*^$'' then [o1] else []);
                 r2 = drop (length op) r1;
                 r3 = drop 2 r2;
                 val = takeWhile (\<lambda>x. x \<noteq> dquote) r3;
                 r4 = dropWhile (\<lambda>x. x \<noteq> dquote) r3
             in if attr \<noteq> [] \<and> take 2 r2 = [CHR ''='', dquote] \<and> val \<noteq> [] \<and>
                   take 2 r4 = [dquote, CHR '']'']
                then Some (attr, op, val) else None))"

fun attrMatch :: "string \<Rightarrow> (string \<times> string \<times> string) option" where
  "attrMatch [] = None"
| "attrMatch (c # cs) =
     (case attrMatchAt (c # cs) of Some r \<Rightarrow> Some r | None \<Rightarrow> attrMatch cs)"

definition matchAttributeValue :: "string \<Rightarrow> string \<Rightarrow> string \<Rightarrow> bool" where
  "matchAttributeValue actual op expected =
     (if op = ''*'' then includesStr actual expected
      else if op = ''^'' then prefix expected actual
      else if op = ''$'' then suffix expected actual
      else actual = expected)"

definition matchesSelectorPattern :: "ElementDescriptor \<Rightarrow> string \<Rightarrow> bool" where
  "matchesSelectorPattern tgt pat =
     (if prefix (tagName tgt) pat then
        (case attrMatch pat of
           Some (attr, op, val) \<Rightarrow>
             (if attr = ''id'' \<and> truthy (elemId tgt)
              then matchAttributeValue (showOpt (elemId tgt)) op val
              else if attr = ''autocomplete'' \<and> includesStr (cssSelector tgt) val then True
              else if attr = ''name'' \<and> includesStr (cssSelector tgt) val then True
              else False)
         | None \<Rightarrow> False)
      else False)"

text \<open>\<open>rule.pattern.split(',').map((p) => p.trim())\<close>.\<close>

definition patternList :: "RedactionRule \<Rightarrow> string list" where
  "patternList rule = map trim (splitOn (CHR '','') (pattern rule))"

fun shouldRedactInputType :: "RedactionRule list \<Rightarrow> ElementDescriptor \<Rightarrow> string \<Rightarrow> bool" where
  "shouldRedactInputType [] tgt inputTy = False"
| "shouldRedactInputType (rule # rs) tgt inputTy =
     (if \<not> enabled rule then shouldRedactInputType rs tgt inputTy
      else if ruleType rule = InputTypeRule \<and> pattern rule = inputTy then True
      else if ruleType rule = SelectorRule \<and> cssSelector tgt \<noteq> [] \<and>
              list_ex (matchesSelectorPattern tgt) (patternList rule) then True
      else shouldRedactInputType rs tgt inputTy)"

fun getReplacementForInputType :: "RedactionRule list \<Rightarrow> ElementDescriptor \<Rightarrow> string \<Rightarrow> string" where
  "getReplacementForInputType [] tgt inputTy = ''[REDACTED]''"
| "getReplacementForInputType (rule # rs) tgt inputTy =
     (if \<not> enabled rule then getReplacementForInputType rs tgt inputTy
      else if ruleType rule = InputTypeRule \<and> pattern rule = inputTy then replacement rule
      else if ruleType rule = SelectorRule \<and>
              list_ex (matchesSelectorPattern tgt) (patternList rule) then replacement rule
      else getReplacementForInputType rs tgt inputTy)"

text \<open>The first enabled attribute rule that lists the key, in \<open>redactAttributes\<close>.\<close>

fun attributeRuleFor :: "RedactionRule list \<Rightarrow> string \<Rightarrow> RedactionRule option" where
  "attributeRuleFor [] key = None"
| "attributeRuleFor (rule # rs) key =
     (if \<not> enabled rule \<or> ruleType rule \<noteq> AttributeRule then attributeRuleFor rs key
      else if key \<in> set (patternList rule) then Some rule
      else attributeRuleFor rs key)"

definition redactAttributes :: "RedactionEngine \<Rightarrow> (string \<times> string) list \<Rightarrow> (string \<times> string) list" where
  "redactAttributes eng attrs =
     map (\<lambda>(key, v).
            (case attributeRuleFor (rules eng) key of
               Some rule \<Rightarrow> (key, replacement rule)
             | None \<Rightarrow> (key, redactText eng v)))
         attrs"

text \<open>
  \<open>process\<close>. The payload of a \<open>user:input\<close> event is cast to \<open>InputPayload\<close>; every event
  the capture classes emit with that type carries an input payload. On a payload of
  another kind the cast would read \<open>undefined\<close> fields; the model leaves such a payload as
  it is, and the properties below are stated for events whose payload agrees with their
  type (\<open>payloadAgrees\<close>).
\<close>

definition process :: "RedactionEngine \<Rightarrow> DOMEvent \<Rightarrow> DOMEvent" where
  "process eng event =
     event
       \<lparr>target :=
          (case label (target event) of
             Some l \<Rightarrow> if l \<noteq> [] then (target event)\<lparr>label := Some (redactText eng l)\<rparr>
                       else target event
           | None \<Rightarrow> target event),
        payload :=
          (if etype event = UserInput then
             (case payload event of
                Input inputPayload \<Rightarrow>
                  if shouldRedactInputType (rules eng) (target event) (inputType inputPayload)
                  then Input (inputPayload
                         \<lparr>value := getReplacementForInputType (rules eng) (target event)
                                     (inputType inputPayload)\<rparr>)
                  else Input (inputPayload\<lparr>value := redactText eng (value inputPayload)\<rparr>)
              | other \<Rightarrow> other)
           else payload event),
        domSnapshot :=
          map_option
            (\<lambda>d. d\<lparr>html := redactText eng (html d),
                   text := redactText eng (text d),
                   attributes := redactAttributes eng (attributes d)\<rparr>)
            (domSnapshot event)\<rparr>"



section \<open>A regular-expression matcher for the default patterns\<close>

text \<open>
  The closed statements below need \<open>text.replace(regex, replacement)\<close> evaluated on
  concrete texts, so the built-in is given here for the syntax the default rules use:
  literals, character classes, sequence, the greedy quantifiers \<open>?\<close> and \<open>*\<close> (with \<open>+\<close>
  and \<open>{n}\<close> as their expansions) and \<open>\b\<close>. The matcher is the backtracking matcher of
  the language: \<open>matchRx r p\<close> lists, in the order in which backtracking tries them, the
  positions at which a match of \<open>r\<close> that starts at \<open>p\<close> can end. A position is the
  character before it (for \<open>\b\<close>) and the rest of the text. Under the flag \<open>i\<close> two
  characters match when their canonical (upper-case) forms agree; literals and class
  members are stored in canonical form.
\<close>

datatype rx = Lit char | Class "char list" | Seq rx rx | Opt rx | Star rx | WordB

type_synonym pos = "char option \<times> string"

definition canon :: "char \<Rightarrow> char" where
  "canon c =
     (case map_of (zip ''abcdefghijklmnopqrstuvwxyz'' ''ABCDEFGHIJKLMNOPQRSTUVWXYZ'') c of
        Some u \<Rightarrow> u
      | None \<Rightarrow> c)"

text \<open>Zero or more iterations, longest first; an iteration that consumes nothing is
  rejected, as the language's \<open>RepeatMatcher\<close> does.\<close>

fun starLoop :: "(pos \<Rightarrow> pos list) \<Rightarrow> pos \<Rightarrow> pos list" where
  "starLoop f p =
     concat (map (\<lambda>q. if length (snd q) < length (snd p) then starLoop f q else []) (f p)) @ [p]"

fun matchRx :: "rx \<Rightarrow> pos \<Rightarrow> pos list" where
  "matchRx (Lit c) p =
     (case snd p of [] \<Rightarrow> [] | x # xs \<Rightarrow> if canon x = c then [(Some x, xs)] else [])"
| "matchRx (Class cs) p =
     (case snd p of [] \<Rightarrow> [] | x # xs \<Rightarrow> if canon x \<in> set cs then [(Some x, xs)] else [])"
| "matchRx (Seq a b) p = concat (map (matchRx b) (matchRx a p))"
| "matchRx (Opt a) p = filter (\<lambda>q. length (snd q) < length (snd p)) (matchRx a p) @ [p]"
| "matchRx (Star a) p = starLoop (matchRx a) p"
| "matchRx WordB p =
     (if (case fst p of Some c \<Rightarrow> isWordChar c | None \<Rightarrow> False) \<noteq>
         (case snd p of x # _ \<Rightarrow> isWordChar x | [] \<Rightarrow> False)
      then [p] else [])"

text \<open>
  \<open>text.replace(regex, replacement)\<close> for a global regex and a replacement without \<open>$\<close>:
  the leftmost match at or after the current position is replaced and the scan goes on
  behind it; after an empty match one character is copied.
\<close>

fun replaceFrom :: "rx \<Rightarrow> string \<Rightarrow> pos \<Rightarrow> string" where
  "replaceFrom r repl p =
     (case matchRx r p of
        q # _ \<Rightarrow>
          (if length (snd q) < length (snd p) then repl @ replaceFrom r repl q
           else repl @ (case snd p of [] \<Rightarrow> [] | c # cs \<Rightarrow> c # replaceFrom r repl (Some c, cs)))
      | [] \<Rightarrow> (case snd p of [] \<Rightarrow> [] | c # cs \<Rightarrow> c # replaceFrom r repl (Some c, cs)))"

definition jsReplace :: "rx \<Rightarrow> RegExp" where
  "jsReplace r t repl = replaceFrom r repl (None, t)"

definition plus :: "rx \<Rightarrow> rx" where
  "plus a = Seq a (Star a)"

definition digit :: rx where
  "digit = Class ''0123456789''"

definition digits3 :: rx where
  "digits3 = Seq digit (Seq digit digit)"

definition digits4 :: rx where
  "digits4 = Seq digit digits3"

definition digits1to3 :: rx where
  "digits1to3 = Seq digit (Opt (Seq digit (Opt digit)))"

definition separator :: rx where
  "separator = Class [CHR ''-'', CHR ''.'', CHR 0x09, CHR 0x0A, CHR 0x0B, CHR 0x0C, CHR 0x0D, CHR '' '', CHR 0xA0]"

definition upperLetter :: rx where
  "upperLetter = Class ''ABCDEFGHIJKLMNOPQRSTUVWXYZ''"

definition emailRx :: rx where
  "emailRx =
     Seq (plus (Class ''ABCDEFGHIJKLMNOPQRSTUVWXYZ0123456789._%+-''))
       (Seq (Lit (CHR ''@''))
         (Seq (plus (Class ''ABCDEFGHIJKLMNOPQRSTUVWXYZ0123456789.-''))
           (Seq (Lit (CHR ''.'')) (Seq upperLetter (Seq upperLetter (Star upperLetter))))))"

definition phoneRx :: rx where
  "phoneRx =
     Seq (Opt (Seq (Opt (Lit (CHR ''+''))) (Seq (Opt (Lit (CHR ''1''))) (Opt separator))))
       (Seq (Opt (Seq (Opt (Lit (CHR ''(''))) (Seq digits3 (Seq (Opt (Lit (CHR '')''))) (Opt separator)))))
         (Seq digits3 (Seq (Opt separator) digits4)))"

definition ssnRx :: rx where
  "ssnRx =
     Seq WordB (Seq digits3 (Seq (Lit (CHR ''-'')) (Seq (Seq digit digit)
       (Seq (Lit (CHR ''-'')) (Seq digits4 WordB)))))"

definition cardGroup :: rx where
  "cardGroup = Seq digits4 (Opt (Class ''- ''))"

definition cardRx :: rx where
  "cardRx = Seq WordB (Seq cardGroup (Seq cardGroup (Seq cardGroup (Seq digits4 WordB))))"

definition ipGroup :: rx where
  "ipGroup = Seq digits1to3 (Lit (CHR ''.''))"

definition ipRx :: rx where
  "ipRx = Seq WordB (Seq ipGroup (Seq ipGroup (Seq ipGroup (Seq digits1to3 WordB))))"

definition isAlnum :: "char \<Rightarrow> bool" where
  "isAlnum c \<longleftrightarrow> c \<in> set ''abcdefghijklmnopqrstuvwxyzABCDEFGHIJKLMNOPQRSTUVWXYZ0123456789''"

fun literalRx :: "char \<Rightarrow> string \<Rightarrow> rx" where
  "literalRx c [] = Lit (canon c)"
| "literalRx c (d # ds) = Seq (Lit (canon c)) (literalRx d ds)"

text \<open>
  \<open>new RegExp(pattern, 'gi')\<close> on the patterns of the default rules and on patterns made
  of letters and digits only, which match themselves. Other patterns are outside this
  table (\<open>None\<close>); no statement below loads one.
\<close>

definition jsRegExp :: "string \<Rightarrow> RegExp option" where
  "jsRegExp p =
     (if p = pattern (DEFAULT_REDACTION_RULES ! 2) then Some (jsReplace emailRx)
      else if p = pattern (DEFAULT_REDACTION_RULES ! 3) then Some (jsReplace phoneRx)
      else if p = pattern (DEFAULT_REDACTION_RULES ! 4) then Some (jsReplace ssnRx)
      else if p = pattern (DEFAULT_REDACTION_RULES ! 5) then Some (jsReplace cardRx)
      else if p = pattern (DEFAULT_REDACTION_RULES ! 6) then Some (jsReplace ipRx)
      else (case p of
              c # cs \<Rightarrow> if list_all isAlnum (c # cs) then Some (jsReplace (literalRx c cs)) else None
            | [] \<Rightarrow> None))"



text \<open>A password typed into a field labelled "Password".\<close>

definition examplePasswordInput :: InputPayload where
  "examplePasswordInput =
     \<lparr>inputType = ''password'', value = ''hunter2'', selectionStart = Some 7, selectionEnd = Some 7\<rparr>"

definition examplePasswordEvent :: DOMEvent where
  "examplePasswordEvent =
     \<lparr>eventId = ''e2'', sessionId = ''s1'', timestamp = 3100, sequence = 0, etype = UserInput,
      target = \<lparr>tagName = ''input'', elemId = Some ''pw'', classes = [], role = Some ''textbox'',
                label = Some ''Password'', xpath = ''//*[@id='' @ [dquote] @ ''pw'' @ [dquote] @ '']'',
                cssSelector = ''#pw'', boundingRect = None\<rparr>,
      payload = Input examplePasswordInput,
      domSnapshot = None\<rparr>"





text \<open>The engine after \<open>loadRules\<close> without custom rules, and with the custom rule above.\<close>

definition defaultEngine :: RedactionEngine where
  "defaultEngine = loadRules jsRegExp None"



section \<open>Element descriptions (\<open>SemanticExtractor\<close>)\<close>

text \<open>
  What the extractor reads of a live element: its own properties and attributes, and the
  answers of the document to the queries it makes for it. \<open>labelledByText\<close> is
  \<open>document.getElementById(labelledBy)?.textContent\<close>, \<open>labelFor\<close> is the text content of
  \<open>document.querySelector('label[for="id"]')\<close> and \<open>wrappingLabel\<close> the text content of
  the clone of \<open>closest('label')\<close> without its form controls; each is \<open>None\<close> when the
  document has no such element. \<open>domXPath\<close>, \<open>domCssSelector\<close> and \<open>domBoundingRect\<close> are
  the results of \<open>getXPath\<close>, \<open>getCssSelector\<close> and \<open>getBoundingRect\<close>, which walk the
  document around the element.
\<close>

record ElementView =
  nodeTagName :: string
  nodeId :: string
  classList :: "string list"
  nodeAttributes :: "(string \<times> string) list"
  textContent :: "string option"
  inputTypeProperty :: string
  inputValue :: string
  inputSelectionStart :: "nat option"
  inputSelectionEnd :: "nat option"
  outerHTML :: string
  labelledByText :: "string option"
  labelFor :: "string option option"
  wrappingLabel :: "string option option"
  domXPath :: string
  domCssSelector :: string
  domBoundingRect :: "(int \<times> int \<times> int \<times> int) option"

datatype Node = ElementNode ElementView | TextNode "string option" | OtherNode string

definition toLowerCase :: "string \<Rightarrow> string" where
  "toLowerCase s =
     map (\<lambda>c. case map_of (zip ''ABCDEFGHIJKLMNOPQRSTUVWXYZ'' ''abcdefghijklmnopqrstuvwxyz'') c of
                Some l \<Rightarrow> l
              | None \<Rightarrow> c) s"

definition getAttribute :: "ElementView \<Rightarrow> string \<Rightarrow> string option" where
  "getAttribute element nm = map_of (nodeAttributes element) nm"

definition getInputRole :: "ElementView \<Rightarrow> string option" where
  "getInputRole input =
     Some (case map_of
                  [(''text'', ''textbox''), (''password'', ''textbox''), (''email'', ''textbox''),
                   (''tel'', ''textbox''), (''url'', ''textbox''), (''search'', ''searchbox''),
                   (''number'', ''spinbutton''), (''range'', ''slider''), (''checkbox'', ''checkbox''),
                   (''radio'', ''radio''), (''button'', ''button''), (''submit'', ''button''),
                   (''reset'', ''button''), (''image'', ''button'')]
                  (inputTypeProperty input) of
             Some r \<Rightarrow> r
           | None \<Rightarrow> ''textbox'')"

definition getRole :: "ElementView \<Rightarrow> string option" where
  "getRole element =
     (if truthy (getAttribute element ''role'') then getAttribute element ''role''
      else if toLowerCase (nodeTagName element) = ''input'' then getInputRole element
      else map_of
             [(''button'', ''button''), (''a'', ''link''), (''select'', ''combobox''),
              (''textarea'', ''textbox''), (''img'', ''img''), (''nav'', ''navigation''),
              (''main'', ''main''), (''header'', ''banner''), (''footer'', ''contentinfo''),
              (''form'', ''form''), (''table'', ''table''), (''ul'', ''list''), (''ol'', ''list''),
              (''li'', ''listitem''), (''dialog'', ''dialog''), (''article'', ''article''),
              (''section'', ''region''), (''aside'', ''complementary'')]
             (toLowerCase (nodeTagName element)))"

text \<open>\<open>x?.trim() || null\<close>.\<close>

definition trimOrNull :: "string option \<Rightarrow> string option" where
  "trimOrNull x = (case x of Some s \<Rightarrow> if trim s \<noteq> [] then Some (trim s) else None | None \<Rightarrow> None)"

definition findAssociatedLabel :: "ElementView \<Rightarrow> string option" where
  "findAssociatedLabel element =
     (case (if nodeId element \<noteq> [] then labelFor element else None) of
        Some labelText \<Rightarrow> trimOrNull labelText
      | None \<Rightarrow>
          (case wrappingLabel element of
             Some cloneText \<Rightarrow> trimOrNull cloneText
           | None \<Rightarrow> None))"

text \<open>
  The last source of \<open>getLabel\<close>:
  \<open>text && text.length <= 50 ? text : text?.substring(0, 47) + '...'\<close> with
  \<open>text = element.textContent?.trim()\<close>. An empty \<open>text\<close> is falsy and takes the second
  branch; an \<open>undefined\<close> one prints as \<open>undefined\<close> in the concatenation.
\<close>

definition textSource :: "ElementView \<Rightarrow> string option" where
  "textSource element =
     (case textContent element of
        Some tc \<Rightarrow>
          (if trim tc \<noteq> [] \<and> length (trim tc) \<le> 50 then Some (trim tc)
           else Some (take 47 (trim tc) @ ''...''))
      | None \<Rightarrow> Some ''undefined...'')"

definition labelSources :: "ElementView \<Rightarrow> string option list" where
  "labelSources element =
     [getAttribute element ''aria-label'',
      (if truthy (getAttribute element ''aria-labelledby'') then labelledByText element else None),
      getAttribute element ''title'',
      getAttribute element ''alt'',
      getAttribute element ''placeholder'',
      findAssociatedLabel element,
      textSource element]"

text \<open>The loop of \<open>getLabel\<close>: the first source whose trimmed value is not empty.\<close>

fun firstLabel :: "string option list \<Rightarrow> string option" where
  "firstLabel [] = None"
| "firstLabel (None # rest) = firstLabel rest"
| "firstLabel (Some l # rest) = (if trim l \<noteq> [] then Some (trim l) else firstLabel rest)"

definition getLabel :: "ElementView \<Rightarrow> string option" where
  "getLabel element = firstLabel (labelSources element)"

definition describeNonElement :: "Node option \<Rightarrow> ElementDescriptor" where
  "describeNonElement node =
     \<lparr>tagName =
        (case node of
           Some (OtherNode nodeName) \<Rightarrow> if nodeName = [] then ''unknown'' else toLowerCase nodeName
         | Some (TextNode _) \<Rightarrow> ''#text''
         | Some (ElementNode e) \<Rightarrow> if nodeTagName e = [] then ''unknown'' else toLowerCase (nodeTagName e)
         | None \<Rightarrow> ''unknown''),
      elemId = None, classes = [], role = None, label = None, xpath = [], cssSelector = [],
      boundingRect = None\<rparr>"

definition describe :: "Node option \<Rightarrow> ElementDescriptor" where
  "describe node =
     (case node of
        Some (ElementNode element) \<Rightarrow>
          \<lparr>tagName = toLowerCase (nodeTagName element),
           elemId = (if nodeId element = [] then None else Some (nodeId element)),
           classes = classList element,
           role = getRole element,
           label = getLabel element,
           xpath = domXPath element,
           cssSelector = domCssSelector element,
           boundingRect = domBoundingRect element\<rparr>
      | _ \<Rightarrow> describeNonElement node)"

text \<open>\<open>captureFragment(element, maxLength)\<close>; the result is \<open>undefined\<close> only for no node.\<close>

definition captureFragment :: "Node option \<Rightarrow> nat \<Rightarrow> DOMFragment option" where
  "captureFragment node maxLength =
     (case node of
        None \<Rightarrow> None
      | Some (ElementNode element) \<Rightarrow>
          Some \<lparr>html = take maxLength (outerHTML element),
                text = (case textContent element of Some tc \<Rightarrow> take 500 (trim tc) | None \<Rightarrow> []),
                attributes = nodeAttributes element\<rparr>
      | Some (TextNode tc) \<Rightarrow>
          Some \<lparr>html = (case tc of Some t \<Rightarrow> trim t | None \<Rightarrow> []),
                text = (case tc of Some t \<Rightarrow> trim t | None \<Rightarrow> []),
                attributes = []\<rparr>
      | Some (OtherNode _) \<Rightarrow> Some \<lparr>html = [], text = [], attributes = []\<rparr>)"



section \<open>Timers (\<open>lib/utils/debounce.ts\<close>)\<close>

text \<open>
  The state a \<open>debounce\<close> or \<open>throttle\<close> closure captures. A pending timeout is kept as
  the arguments its callback will pass on, with the time at which it is due; \<open>None\<close> is
  \<open>timeoutId === null\<close>. Calling the returned function is \<open>debounced\<close> and \<open>throttled\<close>;
  the timer callback is \<open>debounceTimeout\<close> and \<open>throttleTimeout\<close>. Each returns the
  arguments of the call of \<open>fn\<close> it makes, if it makes one, and the new state.
\<close>

type_synonym 'a Debounce = "('a \<times> int) option"

definition debounced :: "int \<Rightarrow> int \<Rightarrow> 'a \<Rightarrow> 'a Debounce \<Rightarrow> 'a Debounce" where
  "debounced wait now args timeoutId = Some (args, now + wait)"

definition debounceTimeout :: "'a Debounce \<Rightarrow> 'a option \<times> 'a Debounce" where
  "debounceTimeout timeoutId =
     (case timeoutId of Some (args, due) \<Rightarrow> (Some args, None) | None \<Rightarrow> (None, None))"

record 'a Throttle =
  lastCall :: int
  timeoutId :: "('a \<times> int) option"

definition throttle :: "'a Throttle" where
  "throttle = \<lparr>lastCall = 0, timeoutId = None\<rparr>"

definition throttled :: "int \<Rightarrow> int \<Rightarrow> 'a \<Rightarrow> 'a Throttle \<Rightarrow> 'a option \<times> 'a Throttle" where
  "throttled wait now args th =
     (let remaining = wait - (now - lastCall th)
      in if remaining \<le> 0 then (Some args, th\<lparr>lastCall := now, timeoutId := None\<rparr>)
         else if timeoutId th = None then (None, th\<lparr>timeoutId := Some (args, now + remaining)\<rparr>)
         else (None, th))"

definition throttleTimeout :: "int \<Rightarrow> 'a Throttle \<Rightarrow> 'a option \<times> 'a Throttle" where
  "throttleTimeout now th =
     (case timeoutId th of
        Some (args, due) \<Rightarrow> (Some args, th\<lparr>lastCall := now, timeoutId := None\<rparr>)
      | None \<Rightarrow> (None, th))"


section \<open>The content script (\<open>content.ts\<close>) and its capture objects\<close>

definition MAX_EVENTS_IN_MEMORY :: nat where "MAX_EVENTS_IN_MEMORY = 500"
definition MAX_DOM_FRAGMENT_SIZE :: nat where "MAX_DOM_FRAGMENT_SIZE = 2000"
definition MAX_EVENTS_PER_SESSION :: nat where "MAX_EVENTS_PER_SESSION = 50000"
definition INPUT_DEBOUNCE_MS :: int where "INPUT_DEBOUNCE_MS = 100"
definition SCROLL_THROTTLE_MS :: int where "SCROLL_THROTTLE_MS = 200"

text \<open>
  A \<open>MutationRecord\<close> as the observer delivers it. The nodes are given by what the
  extractor reads of them; \<open>targetParent\<close> is \<open>target.parentElement\<close>, and
  \<open>reconstructed\<close> the outer HTML that \<open>reconstructBeforeState\<close> computes on a clone of
  the parent at delivery. The document is taken not to change between the delivery of a
  record and the processing of its batch.
\<close>

record MutationRecord =
  recordType :: MutationType
  recordTarget :: Node
  targetParent :: "ElementView option"
  recordAddedNodes :: "Node list"
  recordRemovedNodes :: "Node list"
  recordAttributeName :: "string option"
  recordOldValue :: "string option"
  reconstructed :: string

record MutationWithContext =
  mutationRecord :: MutationRecord
  contextParentHTMLBefore :: "string option"

text \<open>A timeout handle: never set, set and pending, or cleared with \<open>clearTimeout\<close> while
  the field still holds the (truthy) id.\<close>

datatype TimeoutHandle = NullHandle | Pending | Cleared

record MutationCapture =
  observer :: bool
  mutationSessionId :: string
  mutationSequence :: nat
  batchBuffer :: "MutationWithContext list"
  batchTimeout :: TimeoutHandle
  mutationIncludeParentContext :: bool

record EventCapture =
  captureSessionId :: string
  captureSequence :: nat
  configCaptureScrollEvents :: bool
  configDebounceMs :: int
  listeners :: bool
  debouncedInput :: "Node option Debounce"
  throttledScroll :: "unit Throttle option"

text \<open>
  The state of the page as far as the content script goes: the fields of the
  \<open>DOMChronicle\<close> object (\<open>chronicleSessionId\<close> and \<open>chronicleSequence\<close> are its
  \<open>sessionId\<close> and \<open>sequence\<close>), the \<open>EventCapture\<close> objects created so far (\<open>eventCapture\<close>
  is the index of the current one), what the script reads of its environment during the
  current turn of the event loop, and two records of what it has done: \<open>delivered\<close>, the
  \<open>STORE_EVENTS\<close> messages that reached the background script, and \<open>processCalls\<close>, the
  results of the calls of \<open>RedactionEngine.process\<close>.
\<close>

record World =
  isRecording :: bool
  chronicleSessionId :: "string option"
  config :: "SessionConfig option"
  redactionEngine :: RedactionEngine
  mutationCapture :: MutationCapture
  eventCapture :: "nat option"
  eventBuffer :: "DOMEvent list"
  flushInterval :: bool
  chronicleSequence :: nat
  captures :: "EventCapture list"
  regExpConstructor :: "string \<Rightarrow> RegExp option"
  randomUUID :: "nat \<Rightarrow> string"
  uuidCount :: nat
  dateNow :: int
  performanceNow :: int
  sendMessageOk :: bool
  locationHref :: string
  windowScroll :: "int \<times> int"
  documentElement :: ElementView
  delivered :: "DOMEvent list list"
  processCalls :: "DOMEvent list"

text \<open>\<open>flushBuffer\<close>, with the \<open>await\<close> of the send taken as one step: on failure the
  events are put back at the head of the buffer.\<close>

definition flushBuffer :: "World \<Rightarrow> World" where
  "flushBuffer w =
     (if eventBuffer w = [] then w
      else if sendMessageOk w
      then w\<lparr>eventBuffer := [], delivered := delivered w @ [eventBuffer w]\<rparr>
      else w)"

text \<open>
  \<open>MutationCapture.stop\<close> calls \<open>processBatch\<close>, which hands every event to the callback,
  \<open>handleEvent\<close>; \<open>handleEvent\<close> calls \<open>stop\<close> when the session limit is reached. To keep
  the definitions in the order of their calls, \<open>processMutations\<close> takes the callback as
  an argument.
\<close>

definition nonEmpty :: "string option \<Rightarrow> string option" where
  "nonEmpty x = (case x of Some s \<Rightarrow> if s = [] then None else Some s | None \<Rightarrow> None)"

definition targetElement :: "MutationRecord \<Rightarrow> ElementView option" where
  "targetElement m = (case recordTarget m of ElementNode e \<Rightarrow> Some e | _ \<Rightarrow> targetParent m)"

definition isElement :: "Node \<Rightarrow> bool" where
  "isElement n = (case n of ElementNode _ \<Rightarrow> True | _ \<Rightarrow> False)"

definition nodeTextContent :: "Node \<Rightarrow> string option" where
  "nodeTextContent n =
     (case n of ElementNode e \<Rightarrow> textContent e | TextNode tc \<Rightarrow> tc | OtherNode _ \<Rightarrow> None)"

definition getMutationType :: "MutationRecord \<Rightarrow> EventType option" where
  "getMutationType m =
     (case recordType m of
        ChildList \<Rightarrow>
          if recordAddedNodes m \<noteq> [] then Some MutationAdd
          else if recordRemovedNodes m \<noteq> [] then Some MutationRemove
          else None
      | Attributes \<Rightarrow> Some MutationAttribute
      | CharacterData \<Rightarrow> Some MutationText)"

definition shouldIgnore :: "ElementView \<Rightarrow> bool" where
  "shouldIgnore element \<longleftrightarrow>
     toLowerCase (nodeTagName element) \<in> set [''script'', ''style'', ''noscript'', ''link'', ''meta'']"

definition fragmentsOf :: "Node list \<Rightarrow> DOMFragment list" where
  "fragmentsOf nodes =
     concat (map (\<lambda>n. case captureFragment (Some n) MAX_DOM_FRAGMENT_SIZE of
                         Some f \<Rightarrow> [f] | None \<Rightarrow> [])
                 (take 10 (filter isElement nodes)))"

definition buildPayload :: "bool \<Rightarrow> MutationWithContext \<Rightarrow> MutationPayload" where
  "buildPayload includeParent mutationCtx =
     (let m = mutationRecord mutationCtx
      in case recordType m of
           ChildList \<Rightarrow>
             \<lparr>mutationType = ChildList,
              addedNodes =
                (if recordAddedNodes m \<noteq> [] then Some (fragmentsOf (recordAddedNodes m)) else None),
              removedNodes =
                (if recordRemovedNodes m \<noteq> [] then Some (fragmentsOf (recordRemovedNodes m)) else None),
              attributeName = None, oldValue = None, newValue = None,
              parentHTMLBefore =
                (if includeParent then contextParentHTMLBefore mutationCtx else None),
              parentHTMLAfter =
                (if includeParent then map_option outerHTML (targetElement m) else None)\<rparr>
         | Attributes \<Rightarrow>
             \<lparr>mutationType = Attributes, addedNodes = None, removedNodes = None,
              attributeName = nonEmpty (recordAttributeName m),
              oldValue = nonEmpty (recordOldValue m),
              newValue =
                (case recordTarget m of
                   ElementNode e \<Rightarrow> nonEmpty (getAttribute e (orElse (recordAttributeName m) []))
                 | _ \<Rightarrow> None),
              parentHTMLBefore = None, parentHTMLAfter = None\<rparr>
         | CharacterData \<Rightarrow>
             \<lparr>mutationType = CharacterData, addedNodes = None, removedNodes = None,
              attributeName = None,
              oldValue = nonEmpty (recordOldValue m),
              newValue = nonEmpty (nodeTextContent (recordTarget m)),
              parentHTMLBefore = None, parentHTMLAfter = None\<rparr>)"


definition createEvent :: "MutationWithContext \<Rightarrow> World \<Rightarrow> DOMEvent option \<times> World" where
  "createEvent mutationCtx w =
     (let m = mutationRecord mutationCtx; mc = mutationCapture w
      in case getMutationType m of
           None \<Rightarrow> (None, w)
         | Some ty \<Rightarrow>
             (case targetElement m of
                None \<Rightarrow> (None, w)
              | Some tgt \<Rightarrow>
                  if shouldIgnore tgt then (None, w)
                  else
                    (Some \<lparr>eventId = randomUUID w (uuidCount w),
                           sessionId = mutationSessionId mc,
                           timestamp = performanceNow w,
                           sequence = mutationSequence mc,
                           etype = ty,
                           target = describe (Some (ElementNode tgt)),
                           payload = Mutation (buildPayload (mutationIncludeParentContext mc) mutationCtx),
                           domSnapshot = captureFragment (Some (ElementNode tgt)) MAX_DOM_FRAGMENT_SIZE\<rparr>,
                     w\<lparr>uuidCount := uuidCount w + 1,
                       mutationCapture := mc\<lparr>mutationSequence := mutationSequence mc + 1\<rparr>\<rparr>)))"

text \<open>The loop of \<open>processBatch\<close> over the drained buffer: \<open>processMutation\<close> for each.\<close>

fun processMutations ::
  "(DOMEvent \<Rightarrow> World \<Rightarrow> World) \<Rightarrow> MutationWithContext list \<Rightarrow> World \<Rightarrow> World" where
  "processMutations callback [] w = w"
| "processMutations callback (mutationCtx # rest) w =
     (case createEvent mutationCtx w of
        (Some event, w') \<Rightarrow> processMutations callback rest (callback event w')
      | (None, w') \<Rightarrow> processMutations callback rest w')"

definition processBatch :: "(DOMEvent \<Rightarrow> World \<Rightarrow> World) \<Rightarrow> World \<Rightarrow> World" where
  "processBatch callback w =
     processMutations callback (batchBuffer (mutationCapture w))
       (w\<lparr>mutationCapture := (mutationCapture w)\<lparr>batchBuffer := []\<rparr>\<rparr>)"

text \<open>\<open>MutationCapture.stop\<close>: \<open>clearTimeout\<close> leaves the handle in the field.\<close>

definition mutationCaptureStop :: "(DOMEvent \<Rightarrow> World \<Rightarrow> World) \<Rightarrow> World \<Rightarrow> World" where
  "mutationCaptureStop callback w =
     (let w1 = (if batchTimeout (mutationCapture w) \<noteq> NullHandle
                then processBatch callback
                       (w\<lparr>mutationCapture := (mutationCapture w)\<lparr>batchTimeout := Cleared\<rparr>\<rparr>)
                else w)
      in w1\<lparr>mutationCapture := (mutationCapture w1)\<lparr>observer := False\<rparr>\<rparr>)"

text \<open>\<open>EventCapture.stop\<close> removes the listeners on the document; the pending timeouts
  of \<open>debounce\<close> and \<open>throttle\<close> are not touched.\<close>

definition eventCaptureStop :: "nat \<Rightarrow> World \<Rightarrow> World" where
  "eventCaptureStop i w =
     (if i < length (captures w)
      then w\<lparr>captures := (captures w)[i := (captures w ! i)\<lparr>listeners := False\<rparr>]\<rparr>
      else w)"

text \<open>\<open>this.eventCapture?.stop()\<close>.\<close>

definition stopEventCapture :: "World \<Rightarrow> World" where
  "stopEventCapture w =
     (case eventCapture w of Some i \<Rightarrow> eventCaptureStop i w | None \<Rightarrow> w)"

text \<open>
  \<open>DOMChronicle.stop\<close>, with the callback that \<open>MutationCapture\<close> holds as an argument.
  The callback is \<open>handleEvent\<close>; \<open>stop\<close> has set \<open>isRecording\<close> to false before it calls
  \<open>MutationCapture.stop\<close>, and \<open>handleEvent\<close> returns at once then, so \<open>stop\<close> is defined
  with the callback that does nothing (lemma \<open>stopWith_handleEvent\<close> shows that
  \<open>handleEvent\<close> in its place gives the same).
\<close>

definition stopWith :: "(DOMEvent \<Rightarrow> World \<Rightarrow> World) \<Rightarrow> World \<Rightarrow> World" where
  "stopWith callback w =
     (if \<not> isRecording w then w
      else
        (let w1 = w\<lparr>isRecording := False\<rparr>;
             w2 = mutationCaptureStop callback w1;
             w3 = stopEventCapture w2;
             w4 = w3\<lparr>eventCapture := None, flushInterval := False\<rparr>;
             w5 = flushBuffer w4
         in w5\<lparr>chronicleSessionId := None, config := None\<rparr>))"

definition returnAtOnce :: "DOMEvent \<Rightarrow> World \<Rightarrow> World" where
  "returnAtOnce event w = w"

definition stop :: "World \<Rightarrow> World" where
  "stop w = stopWith returnAtOnce w"

definition checkRateLimit :: "World \<Rightarrow> bool \<times> World" where
  "checkRateLimit w =
     (if config w = None then (False, w)
      else if chronicleSequence w \<ge> MAX_EVENTS_PER_SESSION then (False, stop w)
      else (True, w))"

definition handleEvent :: "DOMEvent \<Rightarrow> World \<Rightarrow> World" where
  "handleEvent event w =
     (if \<not> isRecording w \<or> config w = None then w
      else
        (case checkRateLimit w of
           (False, w') \<Rightarrow> w'
         | (True, w') \<Rightarrow>
             (let redactedEvent = process (redactionEngine w') event;
                  w2 = w'\<lparr>processCalls := processCalls w' @ [redactedEvent],
                          chronicleSequence := chronicleSequence w' + 1,
                          eventBuffer := eventBuffer w' @ [redactedEvent\<lparr>sequence := chronicleSequence w'\<rparr>]\<rparr>
              in if length (eventBuffer w2) \<ge> MAX_EVENTS_IN_MEMORY then flushBuffer w2 else w2)))"

definition captureInitialState :: "World \<Rightarrow> World" where
  "captureInitialState w =
     (case chronicleSessionId w of
        None \<Rightarrow> w
      | Some sid \<Rightarrow>
          if sid = [] then w
          else
            (let maxSize = (case config w of
                              Some c \<Rightarrow> (case exportConfig c of Some ec \<Rightarrow> maxInitialHTMLSize ec | None \<Rightarrow> 0)
                            | None \<Rightarrow> 0);
                 h = outerHTML (documentElement w);
                 initHTML = (if maxSize > 0 \<and> length h > maxSize
                             then take maxSize h @ [newline] @ ''<!-- TRUNCATED -->'' else h);
                 event = \<lparr>eventId = randomUUID w (uuidCount w),
                          sessionId = sid,
                          timestamp = performanceNow w,
                          sequence = chronicleSequence w,
                          etype = UserNavigation,
                          target = \<lparr>tagName = ''document'', elemId = None, classes = [], role = None,
                                    label = None, xpath = ''/'', cssSelector = '':root'',
                                    boundingRect = None\<rparr>,
                          payload = Navigation \<lparr>url = locationHref w, navType = Pageload,
                                                initialHTML = Some initHTML\<rparr>,
                          domSnapshot = None\<rparr>
             in w\<lparr>uuidCount := uuidCount w + 1,
                  chronicleSequence := chronicleSequence w + 1,
                  eventBuffer := eventBuffer w @ [event]\<rparr>))"

definition mutationCaptureStart :: "string \<Rightarrow> bool \<Rightarrow> World \<Rightarrow> World" where
  "mutationCaptureStart sid includeParent w =
     w\<lparr>mutationCapture :=
         (mutationCapture w)\<lparr>mutationSessionId := sid, mutationSequence := 0,
            mutationIncludeParentContext := includeParent, observer := True\<rparr>\<rparr>"

text \<open>\<open>new EventCapture(callback, eventConfig)\<close> followed by its \<open>start\<close>.\<close>

definition eventCaptureStart :: "string \<Rightarrow> SessionConfig \<Rightarrow> World \<Rightarrow> World" where
  "eventCaptureStart sid cfg w =
     w\<lparr>captures := captures w @
          [\<lparr>captureSessionId = sid, captureSequence = chronicleSequence w,
            configCaptureScrollEvents = captureScrollEvents cfg,
            configDebounceMs = int (debounceMs cfg),
            listeners = True, debouncedInput = None,
            throttledScroll = (if captureScrollEvents cfg then Some throttle else None)\<rparr>],
       eventCapture := Some (length (captures w))\<rparr>"

definition start :: "string \<Rightarrow> SessionConfig \<Rightarrow> World \<Rightarrow> js_error + World" where
  "start sid cfg w =
     (if isRecording w then Inl (ThrownError ''Already recording'')
      else
        (let w1 = w\<lparr>chronicleSessionId := Some sid, config := Some cfg, chronicleSequence := 0,
                     eventBuffer := [], isRecording := True,
                     redactionEngine := loadRules (regExpConstructor w) (Some (redactionRules cfg))\<rparr>;
             includeParent = (case exportConfig cfg of Some ec \<Rightarrow> includeParentContext ec | None \<Rightarrow> True);
             w2 = mutationCaptureStart sid includeParent w1;
             w3 = eventCaptureStart sid cfg w2;
             w4 = w3\<lparr>flushInterval := True\<rparr>
         in Inr (captureInitialState w4)))"


text \<open>\<open>EventCapture.emit\<close> of the capture object with index \<open>i\<close>.\<close>

definition emit :: "nat \<Rightarrow> EventType \<Rightarrow> Node option \<Rightarrow> EventPayload \<Rightarrow> World \<Rightarrow> World" where
  "emit i ty tgt pl w =
     (let c = captures w ! i;
          event = \<lparr>eventId = randomUUID w (uuidCount w),
                   sessionId = captureSessionId c,
                   timestamp = performanceNow w,
                   sequence = captureSequence c,
                   etype = ty,
                   target = describe tgt,
                   payload = pl,
                   domSnapshot = (if ty = UserClick then captureFragment tgt MAX_DOM_FRAGMENT_SIZE else None)\<rparr>
      in handleEvent event
           (w\<lparr>uuidCount := uuidCount w + 1,
              captures := (captures w)[i := c\<lparr>captureSequence := captureSequence c + 1\<rparr>]\<rparr>))"

definition handleClick :: "nat \<Rightarrow> Node option \<Rightarrow> ClickPayload \<Rightarrow> World \<Rightarrow> World" where
  "handleClick i tgt mouseEvent w =
     (case tgt of None \<Rightarrow> w | Some n \<Rightarrow> emit i UserClick (Some n) (Click mouseEvent) w)"

definition inputPayloadOf :: "Node \<Rightarrow> InputPayload" where
  "inputPayloadOf n =
     (case n of
        ElementNode e \<Rightarrow>
          \<lparr>inputType = (if inputTypeProperty e = [] then ''text'' else inputTypeProperty e),
           value = inputValue e,
           selectionStart = inputSelectionStart e,
           selectionEnd = inputSelectionEnd e\<rparr>
      | _ \<Rightarrow> \<lparr>inputType = ''text'', value = [], selectionStart = None, selectionEnd = None\<rparr>)"

definition handleInput :: "nat \<Rightarrow> Node option \<Rightarrow> World \<Rightarrow> World" where
  "handleInput i tgt w =
     (case tgt of None \<Rightarrow> w | Some n \<Rightarrow> emit i UserInput (Some n) (Input (inputPayloadOf n)) w)"

definition handleFocus :: "nat \<Rightarrow> Node option \<Rightarrow> World \<Rightarrow> World" where
  "handleFocus i tgt w =
     (case tgt of None \<Rightarrow> w | Some n \<Rightarrow> emit i UserFocus (Some n) (Focus \<lparr>focused = True\<rparr>) w)"

definition handleBlur :: "nat \<Rightarrow> Node option \<Rightarrow> World \<Rightarrow> World" where
  "handleBlur i tgt w =
     (case tgt of None \<Rightarrow> w | Some n \<Rightarrow> emit i UserBlur (Some n) (Focus \<lparr>focused = False\<rparr>) w)"

definition handleScroll :: "nat \<Rightarrow> World \<Rightarrow> World" where
  "handleScroll i w =
     emit i UserScroll (Some (ElementNode (documentElement w)))
       (Scroll \<lparr>scrollX = fst (windowScroll w), scrollY = snd (windowScroll w)\<rparr>) w"

text \<open>\<open>handleNavigation\<close> (for \<open>popstate\<close> and \<open>hashchange\<close>) and \<open>emitNavigation\<close> (for the
  wrapped \<open>pushState\<close> and \<open>replaceState\<close>).\<close>

definition emitNavigation :: "nat \<Rightarrow> NavigationType \<Rightarrow> World \<Rightarrow> World" where
  "emitNavigation i ty w =
     emit i UserNavigation (Some (ElementNode (documentElement w)))
       (Navigation \<lparr>url = locationHref w, navType = ty, initialHTML = None\<rparr>) w"

text \<open>
  Delivery of a notification to the listeners. \<open>stop\<close> removes the listeners it added
  with \<open>capture = true\<close>, those on the document. The listeners on \<open>window\<close> were added
  without the capture flag and the history methods stay wrapped, so every capture object
  created so far still receives those, the oldest first.
\<close>

definition onDocument :: "(nat \<Rightarrow> World \<Rightarrow> World) \<Rightarrow> World \<Rightarrow> World" where
  "onDocument handler w =
     fold (\<lambda>i w'. if listeners (captures w' ! i) then handler i w' else w')
       [0..<length (captures w)] w"

definition onWindow :: "(nat \<Rightarrow> World \<Rightarrow> World) \<Rightarrow> World \<Rightarrow> World" where
  "onWindow handler w = fold handler [0..<length (captures w)] w"

definition setCapture :: "nat \<Rightarrow> (EventCapture \<Rightarrow> EventCapture) \<Rightarrow> World \<Rightarrow> World" where
  "setCapture i f w = w\<lparr>captures := (captures w)[i := f (captures w ! i)]\<rparr>"

text \<open>The debounced input listener, and the callback of its timeout.\<close>

definition debouncedInputListener :: "Node option \<Rightarrow> nat \<Rightarrow> World \<Rightarrow> World" where
  "debouncedInputListener tgt i w =
     setCapture i
       (\<lambda>c. c\<lparr>debouncedInput := debounced (configDebounceMs c) (dateNow w) tgt (debouncedInput c)\<rparr>) w"

definition inputTimeout :: "nat \<Rightarrow> World \<Rightarrow> World" where
  "inputTimeout i w =
     (if i < length (captures w) then
        (case debounceTimeout (debouncedInput (captures w ! i)) of
           (Some tgt, timeoutId') \<Rightarrow>
             setCapture i (\<lambda>c. c\<lparr>debouncedInput := timeoutId'\<rparr>) (handleInput i tgt w)
         | (None, _) \<Rightarrow> w)
      else w)"

text \<open>The throttled scroll listener, and the callback of its timeout.\<close>

definition throttledScrollListener :: "nat \<Rightarrow> World \<Rightarrow> World" where
  "throttledScrollListener i w =
     (case throttledScroll (captures w ! i) of
        None \<Rightarrow> w
      | Some th \<Rightarrow>
          (case throttled SCROLL_THROTTLE_MS (dateNow w) () th of
             (Some _, th') \<Rightarrow> handleScroll i (setCapture i (\<lambda>c. c\<lparr>throttledScroll := Some th'\<rparr>) w)
           | (None, th') \<Rightarrow> setCapture i (\<lambda>c. c\<lparr>throttledScroll := Some th'\<rparr>) w))"

definition scrollTimeout :: "nat \<Rightarrow> World \<Rightarrow> World" where
  "scrollTimeout i w =
     (if i < length (captures w) then
        (case throttledScroll (captures w ! i) of
           None \<Rightarrow> w
         | Some th \<Rightarrow>
             (case throttleTimeout (dateNow w) th of
                (Some _, th') \<Rightarrow> handleScroll i (setCapture i (\<lambda>c. c\<lparr>throttledScroll := Some th'\<rparr>) w)
              | (None, _) \<Rightarrow> w))
      else w)"

definition batchMutations :: "MutationRecord list \<Rightarrow> World \<Rightarrow> World" where
  "batchMutations mutations w =
     (let mc = mutationCapture w;
          mutationsWithContext =
            map (\<lambda>m. \<lparr>mutationRecord = m,
                       contextParentHTMLBefore =
                         (if mutationIncludeParentContext mc \<and> recordType m = ChildList
                          then map_option (\<lambda>parent. reconstructed m) (targetElement m)
                          else None)\<rparr>)
                mutations
      in w\<lparr>mutationCapture :=
             mc\<lparr>batchBuffer := batchBuffer mc @ mutationsWithContext,
                batchTimeout := (if batchTimeout mc = NullHandle then Pending else batchTimeout mc)\<rparr>\<rparr>)"

text \<open>The callback of the 50 ms batch timeout.\<close>

definition batchTimeoutFired :: "World \<Rightarrow> World" where
  "batchTimeoutFired w =
     (if batchTimeout (mutationCapture w) = Pending
      then (let w1 = processBatch handleEvent w
            in w1\<lparr>mutationCapture := (mutationCapture w1)\<lparr>batchTimeout := NullHandle\<rparr>\<rparr>)
      else w)"

text \<open>
  What can happen in one turn of the event loop, with what the script reads of the
  environment in that turn: the two clocks, whether a send to the background script
  succeeds, and the location.
\<close>

datatype Action =
    OnStart string SessionConfig
  | OnStop
  | OnFlushInterval
  | OnMutations "MutationRecord list"
  | OnBatchTimeout
  | OnClick "Node option" ClickPayload
  | OnInput "Node option"
  | OnFocus "Node option"
  | OnBlur "Node option"
  | OnScroll int int
  | OnPopstate
  | OnHashchange
  | OnPushState
  | OnReplaceState
  | OnInputTimeout nat
  | OnScrollTimeout nat

record Turn =
  turnDateNow :: int
  turnPerformanceNow :: int
  turnSendOk :: bool
  turnHref :: string

definition act :: "Action \<Rightarrow> World \<Rightarrow> World" where
  "act a w =
     (case a of
        OnStart sid cfg \<Rightarrow> (case start sid cfg w of Inr w' \<Rightarrow> w' | Inl err \<Rightarrow> w)
      | OnStop \<Rightarrow> stop w
      | OnFlushInterval \<Rightarrow> (if flushInterval w then flushBuffer w else w)
      | OnMutations mutations \<Rightarrow> (if observer (mutationCapture w) then batchMutations mutations w else w)
      | OnBatchTimeout \<Rightarrow> batchTimeoutFired w
      | OnClick tgt mouseEvent \<Rightarrow> onDocument (\<lambda>i. handleClick i tgt mouseEvent) w
      | OnInput tgt \<Rightarrow> onDocument (debouncedInputListener tgt) w
      | OnFocus tgt \<Rightarrow> onDocument (\<lambda>i. handleFocus i tgt) w
      | OnBlur tgt \<Rightarrow> onDocument (\<lambda>i. handleBlur i tgt) w
      | OnScroll x y \<Rightarrow> onDocument throttledScrollListener (w\<lparr>windowScroll := (x, y)\<rparr>)
      | OnPopstate \<Rightarrow> onWindow (\<lambda>i. emitNavigation i Popstate) w
      | OnHashchange \<Rightarrow> onWindow (\<lambda>i. emitNavigation i Hashchange) w
      | OnPushState \<Rightarrow> onWindow (\<lambda>i. emitNavigation i PushState) w
      | OnReplaceState \<Rightarrow> onWindow (\<lambda>i. emitNavigation i ReplaceState) w
      | OnInputTimeout i \<Rightarrow> inputTimeout i w
      | OnScrollTimeout i \<Rightarrow> scrollTimeout i w)"

definition step :: "Turn \<times> Action \<Rightarrow> World \<Rightarrow> World" where
  "step ta w =
     act (snd ta)
       (w\<lparr>dateNow := turnDateNow (fst ta), performanceNow := turnPerformanceNow (fst ta),
          sendMessageOk := turnSendOk (fst ta), locationHref := turnHref (fst ta)\<rparr>)"


text \<open>The page after the content script has loaded (\<open>new DOMChronicle()\<close>).\<close>

definition newWorld :: "(string \<Rightarrow> RegExp option) \<Rightarrow> (nat \<Rightarrow> string) \<Rightarrow> ElementView \<Rightarrow> World" where
  "newWorld mk uuid root =
     \<lparr>isRecording = False, chronicleSessionId = None, config = None,
      redactionEngine = \<lparr>rules = [], compiledRegex = Map.empty\<rparr>,
      mutationCapture =
        \<lparr>observer = False, mutationSessionId = [], mutationSequence = 0, batchBuffer = [],
         batchTimeout = NullHandle, mutationIncludeParentContext = True\<rparr>,
      eventCapture = None, eventBuffer = [], flushInterval = False, chronicleSequence = 0,
      captures = [], regExpConstructor = mk, randomUUID = uuid, uuidCount = 0,
      dateNow = 0, performanceNow = 0, sendMessageOk = True, locationHref = [],
      windowScroll = (0, 0), documentElement = root,
      delivered = [], processCalls = []\<rparr>"





text \<open>
  A small page for the closed statements: the document, a button with an inline handler,
  a text field, and a form that receives a paragraph.
\<close>

definition exampleRoot :: ElementView where
  "exampleRoot =
     \<lparr>nodeTagName = ''HTML'', nodeId = [], classList = [], nodeAttributes = [],
      textContent = Some ''Contact: user@example.com Send'', inputTypeProperty = [],
      inputValue = [], inputSelectionStart = None, inputSelectionEnd = None,
      outerHTML = ''<html><body><p>Contact: user@example.com</p><button>Send</button></body></html>'',
      labelledByText = None, labelFor = None, wrappingLabel = None,
      domXPath = ''/html[1]'', domCssSelector = [], domBoundingRect = Some (0, 0, 800, 600)\<rparr>"

definition exampleButton :: ElementView where
  "exampleButton =
     \<lparr>nodeTagName = ''BUTTON'', nodeId = [], classList = [],
      nodeAttributes = [(''onclick'', ''track()'')],
      textContent = Some ''Send'', inputTypeProperty = ''submit'',
      inputValue = [], inputSelectionStart = None, inputSelectionEnd = None,
      outerHTML = ''<button onclick='' @ [dquote] @ ''track()'' @ [dquote] @ ''>Send</button>'',
      labelledByText = None, labelFor = None, wrappingLabel = None,
      domXPath = ''/html[1]/body[1]/button[1]'', domCssSelector = ''button'',
      domBoundingRect = Some (10, 40, 80, 24)\<rparr>"





definition exampleConfig :: SessionConfig where
  "exampleConfig =
     \<lparr>redactionRules = [], captureScrollEvents = True, captureMouseMovement = False,
      debounceMs = 100, maxEventsPerMinute = 1000,
      exportConfig = Some \<lparr>maxInitialHTMLSize = 102400, diffMode = LineMode,
                             includeParentContext = True\<rparr>\<rparr>"

definition exampleUUID :: "nat \<Rightarrow> string" where
  "exampleUUID n = ''uuid-'' @ showNat n"

definition exampleWorld :: World where
  "exampleWorld = newWorld jsRegExp exampleUUID exampleRoot"

definition at :: "int \<Rightarrow> Turn" where
  "at t = \<lparr>turnDateNow = 1700000000000 + t, turnPerformanceNow = t, turnSendOk = True,
           turnHref = ''https://example.com/contact''\<rparr>"

definition exampleClick :: ClickPayload where
  "exampleClick = \<lparr>button = 0, coordinates = (20, 50), ctrl = False, shift = False,
                    alt = False, meta = False\<rparr>"

text \<open>Recording starts.\<close>

definition startedWorld :: World where
  "startedWorld = step (at 1000, OnStart ''s1'' exampleConfig) exampleWorld"


text \<open>The event recording starts with, as \<open>captureInitialState\<close> builds it on this page.\<close>

definition initialEvent :: DOMEvent where
  "initialEvent =
     \<lparr>eventId = ''uuid-0'', sessionId = ''s1'', timestamp = 1000, sequence = 0,
      etype = UserNavigation,
      target = \<lparr>tagName = ''document'', elemId = None, classes = [], role = None,
                label = None, xpath = ''/'', cssSelector = '':root'', boundingRect = None\<rparr>,
      payload = Navigation
        \<lparr>url = ''https://example.com/contact'', navType = Pageload,
         initialHTML = Some ''<html><body><p>Contact: user@example.com</p><button>Send</button></body></html>''\<rparr>,
      domSnapshot = None\<rparr>"

text \<open>The events that \<open>emit\<close> builds for the click on the button and for the typed name,
  before redaction.\<close>

definition rawClickEvent :: DOMEvent where
  "rawClickEvent =
     \<lparr>eventId = ''uuid-1'', sessionId = ''s1'', timestamp = 1200, sequence = 0,
      etype = UserClick,
      target = describe (Some (ElementNode exampleButton)),
      payload = Click exampleClick,
      domSnapshot = captureFragment (Some (ElementNode exampleButton)) MAX_DOM_FRAGMENT_SIZE\<rparr>"


definition clickedWorld :: World where
  "clickedWorld = step (at 1200, OnClick (Some (ElementNode exampleButton)) exampleClick) startedWorld"









text \<open>
  A schedule for one throttled function: calls of the function and firings of its
  timeout, each at a time. \<open>throttleRun\<close> lists the calls of \<open>fn\<close> that result, with their
  times; \<open>throttleAfter\<close> is the state of the closure afterwards. In a schedule with
  \<open>timersOnTime\<close> a timeout fires only while it is pending and not before it is due, which
  is what \<open>setTimeout\<close> promises.
\<close>

datatype 'a ThrottleEvent = Invoke int 'a | TimerFires int

fun throttleStep :: "int \<Rightarrow> 'a ThrottleEvent \<Rightarrow> 'a Throttle \<Rightarrow> 'a option \<times> 'a Throttle" where
  "throttleStep wait (Invoke now args) th = throttled wait now args th"
| "throttleStep wait (TimerFires now) th = throttleTimeout now th"

fun eventTime :: "'a ThrottleEvent \<Rightarrow> int" where
  "eventTime (Invoke now args) = now"
| "eventTime (TimerFires now) = now"

fun throttleRun :: "int \<Rightarrow> 'a ThrottleEvent list \<Rightarrow> 'a Throttle \<Rightarrow> (int \<times> 'a) list" where
  "throttleRun wait [] th = []"
| "throttleRun wait (e # es) th =
     (case throttleStep wait e th of
        (Some args, th') \<Rightarrow> (eventTime e, args) # throttleRun wait es th'
      | (None, th') \<Rightarrow> throttleRun wait es th')"

fun throttleAfter :: "int \<Rightarrow> 'a ThrottleEvent list \<Rightarrow> 'a Throttle \<Rightarrow> 'a Throttle" where
  "throttleAfter wait [] th = th"
| "throttleAfter wait (e # es) th = throttleAfter wait es (snd (throttleStep wait e th))"

fun timersOnTime :: "int \<Rightarrow> 'a ThrottleEvent list \<Rightarrow> 'a Throttle \<Rightarrow> bool" where
  "timersOnTime wait [] th = True"
| "timersOnTime wait (Invoke now args # es) th =
     timersOnTime wait es (snd (throttled wait now args th))"
| "timersOnTime wait (TimerFires now # es) th =
     ((case timeoutId th of Some (args, due) \<Rightarrow> due \<le> now | None \<Rightarrow> False) \<and>
      timersOnTime wait es (snd (throttleTimeout now th)))"

text \<open>Consecutive times are at least \<open>wait\<close> apart.\<close>

fun spaced :: "int \<Rightarrow> int list \<Rightarrow> bool" where
  "spaced wait [] = True"
| "spaced wait [t] = True"
| "spaced wait (t # u # ts) = (t + wait \<le> u \<and> spaced wait (u # ts))"


text \<open>Three scroll notifications: the first is emitted at once, the second arrives 50 ms
  later and is deferred, and its timeout fires at the end of the window.\<close>

definition scrollEventAt :: "nat \<Rightarrow> int \<Rightarrow> nat \<Rightarrow> int \<Rightarrow> int \<Rightarrow> DOMEvent" where
  "scrollEventAt n t k x y =
     \<lparr>eventId = exampleUUID n, sessionId = ''s1'', timestamp = t, sequence = k,
      etype = UserScroll,
      target = describe (Some (ElementNode exampleRoot)),
      payload = Scroll \<lparr>scrollX = x, scrollY = y\<rparr>,
      domSnapshot = None\<rparr>"

definition scroll1World :: World where
  "scroll1World = step (at 1050, OnScroll 0 100) startedWorld"

definition scroll2World :: World where
  "scroll2World = step (at 1100, OnScroll 0 200) scroll1World"

definition scroll3World :: World where
  "scroll3World = step (at 1250, OnScrollTimeout 0) scroll2World"

definition exampleScrolls :: "unit ThrottleEvent list" where
  "exampleScrolls =
     [Invoke 1700000001050 (), Invoke 1700000001100 (), TimerFires 1700000001250]"



definition atBoundary :: "int \<Rightarrow> 'a Throttle \<Rightarrow> bool" where
  "atBoundary wait th \<longleftrightarrow>
     (case timeoutId th of Some (args, due) \<Rightarrow> due = lastCall th + wait | None \<Rightarrow> True)"


section \<open>Verified properties\<close>

subsection \<open>The line diff\<close>

lemma formatUnifiedDiff_same: "formatUnifiedDiff a a = []"
  by (simp add: formatUnifiedDiff_def)

text \<open>
  C5. \<open>formatUnifiedDiff(a, a)\<close> is the empty string (lemma \<open>formatUnifiedDiff_same\<close>), but
  \<open>formatUnifiedDiff("", b)\<close> is not made of \<open>+\<close> lines only: the empty "before" text splits
  into one empty line, which is reported as removed. For \<open>b = "x"\<close> the result is the two
  lines \<open>- \<close> and \<open>+ x\<close>.
\<close>

theorem formatUnifiedDiff_empty_before_x:
  "formatUnifiedDiff [] ''x'' = ''- '' @ [newline] @ ''+ x''"
  by (simp add: formatUnifiedDiff_def)

subsection \<open>Splitting and joining lines\<close>

lemma splitOn_nonempty: "splitOn d s \<noteq> []"
  by (induction s) (auto split: list.splits)

lemma splitOn_no_sep: "l \<in> set (splitOn d s) \<Longrightarrow> d \<notin> set l"
  by (induction s arbitrary: l) (auto split: if_splits list.splits)

lemma splitOn_append_sep:
  "d \<notin> set x \<Longrightarrow> splitOn d (x @ d # rest) = x # splitOn d rest"
  by (induction x) (auto split: list.splits)

lemma splitOn_no_sep_id: "d \<notin> set x \<Longrightarrow> splitOn d x = [x]"
  by (induction x) (auto split: list.splits)

lemma splitOn_joinWith:
  "xs \<noteq> [] \<Longrightarrow> list_all (\<lambda>x. d \<notin> set x) xs \<Longrightarrow> splitOn d (joinWith [d] xs) = xs"
proof (induction xs rule: induct_list012)
  case 1
  then show ?case by simp
next
  case (2 x)
  then show ?case by (simp add: splitOn_no_sep_id)
next
  case (3 x y ys)
  then show ?case by (simp add: splitOn_append_sep)
qed

lemma formatAddedDiff_lines:
  "splitOn newline (formatAddedDiff h) = map (\<lambda>line. ''+ '' @ line) (splitOn newline h)"
  unfolding formatAddedDiff_def
  by (rule splitOn_joinWith) (auto simp: splitOn_nonempty list_all_iff dest: splitOn_no_sep)

subsection \<open>The description of an added element\<close>

text \<open>
  C8, as the exporter renders it. For a \<open>mutation:add\<close> event with exactly one added
  fragment, target selector \<open>form#contact-form\<close> and neither \<open>parentHTMLBefore\<close> nor
  \<open>parentHTMLAfter\<close>, the description is \<open>1 element added to (`form#contact-form`)\<close>: the
  selector stands in parentheses and backticks, as in every other description. A blank
  line and a fenced \<open>diff\<close> block follow, and every line inside the fence is the
  (truncated) fragment's line with the prefix \<open>+ \<close>.
\<close>

theorem describeEvent_one_added:
  assumes "etype event = MutationAdd"
    and "payload event = Mutation p"
    and "addedNodes p = Some [f]"
    and "parentHTMLBefore p = None" and "parentHTMLAfter p = None"
    and "cssSelector (target event) = ''form#contact-form''"
  shows "describeEvent opts event =
           Inr (''1 element added to (`form#contact-form`)'' @ [newline, newline] @
                diffFence (formatAddedDiff (truncateStr (html f) (maxDOMFragmentLength opts))))
         \<and> list_all (prefix ''+ '')
               (splitOn newline (formatAddedDiff (truncateStr (html f) (maxDOMFragmentLength opts))))"
proof
  show "describeEvent opts event =
           Inr (''1 element added to (`form#contact-form`)'' @ [newline, newline] @
                diffFence (formatAddedDiff (truncateStr (html f) (maxDOMFragmentLength opts))))"
    using assms
    by (simp add: describeEvent_def asMutation_def renderMutationDiff_def renderNodesDiff_def
        withDiffBlock_def selectorOf_def diffFence_def)
  show "list_all (prefix ''+ '')
          (splitOn newline (formatAddedDiff (truncateStr (html f) (maxDOMFragmentLength opts))))"
    by (simp add: formatAddedDiff_lines list_all_iff)
qed

theorem describeEvent_one_added_witness:
  "describeEvent DEFAULT_OPTIONS exampleAddedEvent =
     Inr (''1 element added to (`form#contact-form`)'' @ [newline, newline] @
          diffFence ''+ <p>Sent</p>'')
   \<and> list_all (prefix ''+ '') (splitOn newline ''+ <p>Sent</p>'')"
proof -
  have fragment: "formatAddedDiff (truncateStr (html exampleAddedFragment)
                    (maxDOMFragmentLength DEFAULT_OPTIONS)) = ''+ <p>Sent</p>''"
    by (simp add: exampleAddedFragment_def DEFAULT_OPTIONS_def formatAddedDiff_def truncateStr_def)
  have "etype exampleAddedEvent = MutationAdd"
    and "payload exampleAddedEvent = Mutation exampleAddedPayload"
    and "addedNodes exampleAddedPayload = Some [exampleAddedFragment]"
    and "parentHTMLBefore exampleAddedPayload = None"
    and "parentHTMLAfter exampleAddedPayload = None"
    and "cssSelector (target exampleAddedEvent) = ''form#contact-form''"
    by (simp_all add: exampleAddedEvent_def exampleAddedPayload_def)
  from describeEvent_one_added [OF this, of DEFAULT_OPTIONS] show ?thesis
    unfolding fragment .
qed

text \<open>
  The claim's own prefix, \<open>1 element added to `form#contact-form`\<close> with no parenthesis
  before the backtick, is not a prefix of that description.
\<close>

theorem describeEvent_one_added_counterexample:
  "describeEvent DEFAULT_OPTIONS exampleAddedEvent =
     Inr (''1 element added to (`form#contact-form`)'' @ [newline, newline] @
          diffFence ''+ <p>Sent</p>'')
   \<and> \<not> prefix ''1 element added to `form#contact-form`''
         (''1 element added to (`form#contact-form`)'' @ [newline, newline] @
          diffFence ''+ <p>Sent</p>'')"
  by (simp add: describeEvent_def exampleAddedEvent_def exampleAddedPayload_def
      exampleAddedFragment_def DEFAULT_OPTIONS_def asMutation_def
      renderMutationDiff_def renderNodesDiff_def withDiffBlock_def selectorOf_def diffFence_def
      formatAddedDiff_def truncateStr_def)

subsection \<open>Redaction\<close>

lemma matchesSelectorPattern_label [simp]:
  "matchesSelectorPattern (t\<lparr>label := l\<rparr>) = matchesSelectorPattern t"
  by (rule ext) (simp add: matchesSelectorPattern_def split: option.splits)

lemma shouldRedactInputType_label [simp]:
  "shouldRedactInputType rs (t\<lparr>label := l\<rparr>) ty = shouldRedactInputType rs t ty"
  by (induction rs) simp_all

lemma getReplacementForInputType_label [simp]:
  "getReplacementForInputType rs (t\<lparr>label := l\<rparr>) ty = getReplacementForInputType rs t ty"
  by (induction rs) simp_all

lemma rules_loadRules:
  "rules (loadRules mk cs) = DEFAULT_REDACTION_RULES @ (case cs of Some c \<Rightarrow> c | None \<Rightarrow> [])"
  by (simp add: loadRules_def Let_def)

text \<open>
  C7. \<open>loadRules\<close> puts the default rules first, and the first of them is the enabled
  input-type rule for \<open>password\<close>. So for every rule set loaded (whatever the custom
  rules and the regex constructor), a \<open>user:input\<close> event whose payload has input type
  \<open>password\<close> leaves \<open>process\<close> with the value \<open>[PASSWORD]\<close>, whatever the value was; the
  other fields of the payload are unchanged.
\<close>

theorem process_password:
  assumes "etype event = UserInput"
    and "payload event = Input inputPayload"
    and "inputType inputPayload = ''password''"
  shows "payload (process (loadRules mk customRules) event) =
           Input (inputPayload\<lparr>value := ''[PASSWORD]''\<rparr>)"
  using assms
  by (simp add: process_def rules_loadRules DEFAULT_REDACTION_RULES_def)

theorem process_password_witness:
  "payload (process (loadRules jsRegExp None) examplePasswordEvent) =
     Input \<lparr>inputType = ''password'', value = ''[PASSWORD]'',
            selectionStart = Some 7, selectionEnd = Some 7\<rparr>"
proof -
  have "etype examplePasswordEvent = UserInput"
    and "payload examplePasswordEvent = Input examplePasswordInput"
    and "inputType examplePasswordInput = ''password''"
    by (simp_all add: examplePasswordEvent_def examplePasswordInput_def)
  from process_password [OF this, of jsRegExp None] show ?thesis
    by (simp add: examplePasswordInput_def)
qed





subsection \<open>The label of an element without text\<close>



subsection \<open>Events handed to the orchestrator\<close>

text \<open>While a session records below its limits, \<open>handleEvent\<close> redacts the event, numbers
  it and appends it to the buffer; outside a session it does nothing. The redaction engine
  changes the payload of input events only.\<close>

lemma handleEvent_accept:
  assumes "isRecording w" and "config w = Some c"
    and "chronicleSequence w < MAX_EVENTS_PER_SESSION"
    and "Suc (length (eventBuffer w)) < MAX_EVENTS_IN_MEMORY"
  shows "handleEvent event w =
           w\<lparr>processCalls := processCalls w @ [process (redactionEngine w) event],
             chronicleSequence := chronicleSequence w + 1,
             eventBuffer := eventBuffer w @
               [(process (redactionEngine w) event)\<lparr>sequence := chronicleSequence w\<rparr>]\<rparr>"
  using assms by (simp add: handleEvent_def checkRateLimit_def Let_def)

lemma handleEvent_not_recording: "\<not> isRecording w \<Longrightarrow> handleEvent event w = w"
  by (simp add: handleEvent_def)

lemma process_payload_other: "etype event \<noteq> UserInput \<Longrightarrow> payload (process eng event) = payload event"
  by (simp add: process_def)

text \<open>\<open>stop\<close> clears \<open>isRecording\<close> before it stops the observers, so an event the mutation
  capture builds from its pending batch is handed to a callback that returns at once. The
  definition of \<open>stop\<close> writes that callback as \<open>returnAtOnce\<close>; it is \<open>handleEvent\<close> in a
  state that no longer records.\<close>

lemma createEvent_keeps:
  assumes "createEvent ctx w = (ev, w')"
  shows "delivered w' = delivered w" "eventBuffer w' = eventBuffer w"
    "chronicleSequence w' = chronicleSequence w" "isRecording w' = isRecording w"
    "config w' = config w" "processCalls w' = processCalls w"
    "captures w' = captures w" "eventCapture w' = eventCapture w"
    "sendMessageOk w' = sendMessageOk w"
    "batchBuffer (mutationCapture w') = batchBuffer (mutationCapture w)"
    "batchTimeout (mutationCapture w') = batchTimeout (mutationCapture w)"
  using assms
  by (auto simp: createEvent_def Let_def split: option.splits if_splits)


lemma processMutations_not_recording:
  "\<not> isRecording w \<Longrightarrow> processMutations handleEvent ms w = processMutations returnAtOnce ms w"
proof (induction ms arbitrary: w)
  case Nil
  show ?case by simp
next
  case (Cons m ms)
  obtain ev w' where ce: "createEvent m w = (ev, w')" by (cases "createEvent m w")
  from createEvent_keeps(4) [OF ce] Cons.prems have nr: "\<not> isRecording w'" by simp
  show ?case
    using ce nr Cons.IH [OF nr]
    by (cases ev) (simp_all add: returnAtOnce_def handleEvent_not_recording)
qed

lemma stopWith_handleEvent: "stopWith handleEvent w = stop w"
  by (simp add: stop_def stopWith_def mutationCaptureStop_def processBatch_def Let_def
      processMutations_not_recording)



subsection \<open>The example session, one turn at a time\<close>

text \<open>Each state of the example session, as an update of the state before it.\<close>

lemma startedWorld_eq:
  "startedWorld =
     exampleWorld
       \<lparr>isRecording := True, chronicleSessionId := Some ''s1'', config := Some exampleConfig,
        redactionEngine := defaultEngine,
        mutationCapture := \<lparr>observer = True, mutationSessionId = ''s1'', mutationSequence = 0,
          batchBuffer = [], batchTimeout = NullHandle, mutationIncludeParentContext = True\<rparr>,
        eventCapture := Some 0, eventBuffer := [initialEvent], flushInterval := True,
        chronicleSequence := 1,
        captures := [\<lparr>captureSessionId = ''s1'', captureSequence = 0,
                      configCaptureScrollEvents = True, configDebounceMs = 100, listeners = True,
                      debouncedInput = None, throttledScroll = Some throttle\<rparr>],
        uuidCount := 1, dateNow := 1700000001000, performanceNow := 1000,
        locationHref := ''https://example.com/contact''\<rparr>"
  by (simp add: startedWorld_def exampleWorld_def newWorld_def step_def act_def start_def at_def
      Let_def captureInitialState_def mutationCaptureStart_def eventCaptureStart_def
      exampleConfig_def defaultEngine_def loadRules_def initialEvent_def exampleUUID_def
      exampleRoot_def)

lemma exampleWorld_uuid: "randomUUID exampleWorld = exampleUUID"
  by (simp add: exampleWorld_def newWorld_def)

lemma clickedWorld_eq:
  "clickedWorld =
     startedWorld
       \<lparr>dateNow := 1700000001200, performanceNow := 1200, uuidCount := 2,
        captures := [\<lparr>captureSessionId = ''s1'', captureSequence = 1,
                      configCaptureScrollEvents = True, configDebounceMs = 100, listeners = True,
                      debouncedInput = None, throttledScroll = Some throttle\<rparr>],
        processCalls := [process defaultEngine rawClickEvent],
        chronicleSequence := 2,
        eventBuffer := [initialEvent, (process defaultEngine rawClickEvent)\<lparr>sequence := 1\<rparr>]\<rparr>"
  unfolding clickedWorld_def startedWorld_eq
  by (simp add: step_def act_def at_def onDocument_def handleClick_def emit_def Let_def
      handleEvent_accept [where c = exampleConfig] MAX_EVENTS_PER_SESSION_def MAX_EVENTS_IN_MEMORY_def
      exampleWorld_def newWorld_def exampleUUID_def rawClickEvent_def)








lemma scroll1World_eq:
  "scroll1World =
     startedWorld
       \<lparr>dateNow := 1700000001050, performanceNow := 1050, windowScroll := (0, 100),
        uuidCount := 2,
        captures := [\<lparr>captureSessionId = ''s1'', captureSequence = 1,
                      configCaptureScrollEvents = True, configDebounceMs = 100, listeners = True,
                      debouncedInput = None,
                      throttledScroll = Some \<lparr>lastCall = 1700000001050, timeoutId = None\<rparr>\<rparr>],
        processCalls := [process defaultEngine (scrollEventAt 1 1050 0 0 100)],
        chronicleSequence := 2,
        eventBuffer := [initialEvent,
                        (process defaultEngine (scrollEventAt 1 1050 0 0 100))\<lparr>sequence := 1\<rparr>]\<rparr>"
  unfolding scroll1World_def startedWorld_eq
  by (simp add: step_def act_def at_def onDocument_def throttledScrollListener_def throttled_def
      throttle_def SCROLL_THROTTLE_MS_def setCapture_def handleScroll_def emit_def Let_def
      handleEvent_accept [where c = exampleConfig] MAX_EVENTS_PER_SESSION_def MAX_EVENTS_IN_MEMORY_def
      exampleWorld_def newWorld_def scrollEventAt_def)

lemma scroll2World_eq:
  "scroll2World =
     scroll1World
       \<lparr>dateNow := 1700000001100, performanceNow := 1100, windowScroll := (0, 200),
        captures := [\<lparr>captureSessionId = ''s1'', captureSequence = 1,
                      configCaptureScrollEvents = True, configDebounceMs = 100, listeners = True,
                      debouncedInput = None,
                      throttledScroll = Some \<lparr>lastCall = 1700000001050,
                                                timeoutId = Some ((), 1700000001250)\<rparr>\<rparr>]\<rparr>"
  unfolding scroll2World_def scroll1World_eq startedWorld_eq
  by (simp add: step_def act_def at_def onDocument_def throttledScrollListener_def throttled_def
      SCROLL_THROTTLE_MS_def setCapture_def Let_def exampleWorld_def newWorld_def)

lemma scroll3World_eq:
  "scroll3World =
     scroll2World
       \<lparr>dateNow := 1700000001250, performanceNow := 1250, uuidCount := 3,
        captures := [\<lparr>captureSessionId = ''s1'', captureSequence = 2,
                      configCaptureScrollEvents = True, configDebounceMs = 100, listeners = True,
                      debouncedInput = None,
                      throttledScroll = Some \<lparr>lastCall = 1700000001250, timeoutId = None\<rparr>\<rparr>],
        processCalls := [process defaultEngine (scrollEventAt 1 1050 0 0 100),
                         process defaultEngine (scrollEventAt 2 1250 1 0 200)],
        chronicleSequence := 3,
        eventBuffer := [initialEvent,
                        (process defaultEngine (scrollEventAt 1 1050 0 0 100))\<lparr>sequence := 1\<rparr>,
                        (process defaultEngine (scrollEventAt 2 1250 1 0 200))\<lparr>sequence := 2\<rparr>]\<rparr>"
  unfolding scroll3World_def scroll2World_eq scroll1World_eq startedWorld_eq
  by (simp add: step_def act_def at_def scrollTimeout_def throttleTimeout_def
      setCapture_def handleScroll_def emit_def Let_def
      handleEvent_accept [where c = exampleConfig] MAX_EVENTS_PER_SESSION_def MAX_EVENTS_IN_MEMORY_def
      exampleWorld_def newWorld_def scrollEventAt_def)

subsection \<open>The initial navigation event\<close>

text \<open>C1. Every event accepted into the outbound buffer is said to have gone through
  \<open>RedactionEngine.process\<close> first, the initial navigation event included. \<open>start\<close> builds
  that event in \<open>captureInitialState\<close> and pushes it onto the buffer itself: after \<open>start\<close>
  the buffer holds the event with the page source as it was read from the document, and the
  redaction engine has not been called.\<close>

theorem initial_event_skips_process:
  "eventBuffer startedWorld = [initialEvent] \<and> processCalls startedWorld = []"
  by (simp add: startedWorld_eq exampleWorld_def newWorld_def)

subsection \<open>Snapshots of clicked elements\<close>

text \<open>The fragment of the example button and what the regex cascade makes of it: no
  default pattern matches, so html, text and attributes stay as captured.\<close>

lemma exampleButton_fragment:
  "captureFragment (Some (ElementNode exampleButton)) MAX_DOM_FRAGMENT_SIZE =
     Some \<lparr>html = ''<button onclick='' @ [dquote] @ ''track()'' @ [dquote] @ ''>Send</button>'',
           text = ''Send'', attributes = [(''onclick'', ''track()'')]\<rparr>"
  by (simp add: captureFragment_def exampleButton_def MAX_DOM_FRAGMENT_SIZE_def trim_def isSpace_def)

lemma redact_button_html:
  "redactText defaultEngine (''<button onclick='' @ [dquote] @ ''track()'' @ [dquote] @ ''>Send</button>'') =
     ''<button onclick='' @ [dquote] @ ''track()'' @ [dquote] @ ''>Send</button>''"
  by code_simp

lemma redact_button_text: "redactText defaultEngine ''Send'' = ''Send''"
  by code_simp

lemma redact_button_attributes:
  "redactAttributes defaultEngine [(''onclick'', ''track()'')] = [(''onclick'', ''track()'')]"
  by code_simp

text \<open>C2. A snapshot in the buffer is said to be sanitized and redacted. The pipeline never
  calls the sanitizer: \<open>captureFragment\<close> stores \<open>outerHTML\<close> cut to the size limit and
  \<open>process\<close> applies the regex cascade only. A click on a button with an inline \<open>onclick\<close>
  handler is buffered with the handler still in the snapshot's html and attributes.\<close>

theorem click_snapshot_is_raw_html:
  "map domSnapshot (eventBuffer clickedWorld) =
     [None,
      Some \<lparr>html = ''<button onclick='' @ [dquote] @ ''track()'' @ [dquote] @ ''>Send</button>'',
            text = ''Send'', attributes = [(''onclick'', ''track()'')]\<rparr>]"
  using redact_button_html redact_button_text redact_button_attributes
  by (simp add: clickedWorld_eq initialEvent_def process_def rawClickEvent_def exampleButton_fragment)

subsection \<open>Stopping a session\<close>




subsection \<open>Sequence numbers\<close>




























subsection \<open>Throttled scroll notifications\<close>

text \<open>A pending timeout of a throttled function is always due one window after the last
  call; from this the calls are at least one window apart, and an invocation inside the
  window only arms the timeout.\<close>

lemma atBoundary_step: "atBoundary wait th \<Longrightarrow> atBoundary wait (snd (throttleStep wait e th))"
  by (cases e) (auto simp: atBoundary_def throttled_def throttleTimeout_def Let_def split: option.splits)

lemma atBoundary_after: "atBoundary wait th \<Longrightarrow> atBoundary wait (throttleAfter wait es th)"
  by (induction es arbitrary: th) (simp_all add: atBoundary_step)

lemma atBoundary_throttle: "atBoundary wait throttle"
  by (simp add: atBoundary_def throttle_def)

lemma spaced_Cons: "spaced wait (t # ts) \<longleftrightarrow> list_all (\<lambda>u. t + wait \<le> u) (take 1 ts) \<and> spaced wait ts"
  by (cases ts) simp_all

lemma throttleRun_spaced:
  assumes "0 \<le> wait"
  shows "atBoundary wait th \<Longrightarrow> timersOnTime wait es th \<Longrightarrow>
         spaced wait (map fst (throttleRun wait es th)) \<and>
         list_all (\<lambda>u. lastCall th + wait \<le> u) (take 1 (map fst (throttleRun wait es th)))"
proof (induction es arbitrary: th)
  case Nil
  show ?case by simp
next
  case (Cons e es)
  obtain r th' where st: "throttleStep wait e th = (r, th')" by (cases "throttleStep wait e th")
  have ab: "atBoundary wait th'" using atBoundary_step [OF Cons.prems(1), of e] st by simp
  have ot: "timersOnTime wait es th'" using Cons.prems(2) st by (cases e) auto
  note IH = Cons.IH [OF ab ot]
  show ?case
  proof (cases r)
    case None
    have "lastCall th' = lastCall th"
      using st None by (cases e) (auto simp: throttled_def throttleTimeout_def Let_def split: option.splits if_splits)
    with IH st None show ?thesis by simp
  next
    case (Some a)
    have fire: "lastCall th' = eventTime e \<and> lastCall th + wait \<le> eventTime e"
      using st Some Cons.prems
      by (cases e) (auto simp: throttled_def throttleTimeout_def Let_def atBoundary_def split: option.splits if_splits)
    with IH st Some show ?thesis by (simp add: spaced_Cons)
  qed
qed

lemma throttled_within_window:
  assumes "atBoundary wait s" and "now < lastCall s + wait"
  shows "fst (throttled wait now args s) = None"
    and "map_option snd (timeoutId (snd (throttled wait now args s))) = Some (lastCall s + wait)"
  using assms
  by (auto simp: throttled_def Let_def atBoundary_def split: option.splits)

lemma scroll_within_window:
  assumes "captures w = [c]" and "listeners c" and "throttledScroll c = Some s"
    and "atBoundary SCROLL_THROTTLE_MS s"
    and "dateNow w < lastCall s + SCROLL_THROTTLE_MS"
  shows "act (OnScroll x y) w =
           w\<lparr>windowScroll := (x, y),
             captures := [c\<lparr>throttledScroll :=
                            Some (s\<lparr>timeoutId := Some ((), lastCall s + SCROLL_THROTTLE_MS)\<rparr>)\<rparr>]\<rparr>"
  using assms
  by (auto simp: act_def onDocument_def throttledScrollListener_def throttled_def Let_def
      setCapture_def atBoundary_def split: option.splits)

lemma scrollTimeout_pending:
  assumes "captures w = [c]" and "throttledScroll c = Some s" and "timeoutId s = Some ((), due)"
    and "isRecording w" and "config w = Some cfg"
    and "chronicleSequence w < MAX_EVENTS_PER_SESSION"
    and "Suc (length (eventBuffer w)) < MAX_EVENTS_IN_MEMORY"
  shows "map payload (eventBuffer (scrollTimeout 0 w)) =
           map payload (eventBuffer w) @
           [Scroll \<lparr>scrollX = fst (windowScroll w), scrollY = snd (windowScroll w)\<rparr>]"
  using assms
  by (simp add: scrollTimeout_def throttleTimeout_def setCapture_def handleScroll_def emit_def
      Let_def handleEvent_accept [where c = cfg] process_payload_other)

text \<open>C9. The throttle applied to scroll notifications, with its timeouts firing when due:
  the emissions of any schedule of invocations and timeouts are at least one window
  (\<open>SCROLL_THROTTLE_MS\<close>) apart; a scroll notification arriving inside the window buffers no
  event and leaves a timeout due at the window boundary; when that timeout fires, one scroll
  event is buffered and it carries the position of the latest notification.\<close>

theorem scroll_throttle_trailing_edge:
  assumes "timersOnTime SCROLL_THROTTLE_MS es throttle"
    and "throttledScroll c = Some (throttleAfter SCROLL_THROTTLE_MS es throttle)"
    and "captures w = [c]" and "listeners c"
    and "dateNow w < lastCall (throttleAfter SCROLL_THROTTLE_MS es throttle) + SCROLL_THROTTLE_MS"
    and "isRecording w" and "config w = Some cfg"
    and "chronicleSequence w < MAX_EVENTS_PER_SESSION"
    and "Suc (length (eventBuffer w)) < MAX_EVENTS_IN_MEMORY"
  shows "spaced SCROLL_THROTTLE_MS (map fst (throttleRun SCROLL_THROTTLE_MS es throttle))
         \<and> eventBuffer (act (OnScroll x y) w) = eventBuffer w
         \<and> map (\<lambda>c'. map_option timeoutId (throttledScroll c')) (captures (act (OnScroll x y) w)) =
             [Some (Some ((), lastCall (throttleAfter SCROLL_THROTTLE_MS es throttle) + SCROLL_THROTTLE_MS))]
         \<and> map payload (eventBuffer (scrollTimeout 0 ((act (OnScroll x y) w)\<lparr>dateNow := T\<rparr>))) =
             map payload (eventBuffer w) @ [Scroll \<lparr>scrollX = x, scrollY = y\<rparr>]"
proof -
  let ?s = "throttleAfter SCROLL_THROTTLE_MS es throttle"
  let ?w1 = "act (OnScroll x y) w"
  have b0: "atBoundary SCROLL_THROTTLE_MS (throttle :: unit Throttle)"
    by (rule atBoundary_throttle)
  have b: "atBoundary SCROLL_THROTTLE_MS ?s"
    using b0 by (rule atBoundary_after)
  have sp: "spaced SCROLL_THROTTLE_MS (map fst (throttleRun SCROLL_THROTTLE_MS es throttle))"
    using throttleRun_spaced [OF _ b0 assms(1)] by (simp add: SCROLL_THROTTLE_MS_def)
  have w1: "?w1 = w\<lparr>windowScroll := (x, y),
             captures := [c\<lparr>throttledScroll :=
                            Some (?s\<lparr>timeoutId := Some ((), lastCall ?s + SCROLL_THROTTLE_MS)\<rparr>)\<rparr>]\<rparr>"
    using assms(3,4,2) b assms(5) by (rule scroll_within_window)
  have fire: "map payload (eventBuffer (scrollTimeout 0 (?w1\<lparr>dateNow := T\<rparr>))) =
        map payload (eventBuffer (?w1\<lparr>dateNow := T\<rparr>)) @
        [Scroll \<lparr>scrollX = fst (windowScroll (?w1\<lparr>dateNow := T\<rparr>)),
                 scrollY = snd (windowScroll (?w1\<lparr>dateNow := T\<rparr>))\<rparr>]"
    by (rule scrollTimeout_pending
        [where cfg = cfg and due = "lastCall ?s + SCROLL_THROTTLE_MS"
          and c = "c\<lparr>throttledScroll :=
                      Some (?s\<lparr>timeoutId := Some ((), lastCall ?s + SCROLL_THROTTLE_MS)\<rparr>)\<rparr>"
          and s = "?s\<lparr>timeoutId := Some ((), lastCall ?s + SCROLL_THROTTLE_MS)\<rparr>"])
      (simp_all add: w1 assms)
  from sp fire show ?thesis
    by (simp add: w1)
qed

text \<open>The theorem after the three scroll turns of the example, for a notification 50 ms
  into the second window.\<close>

theorem scroll_throttle_trailing_edge_witness:
  "spaced SCROLL_THROTTLE_MS (map fst (throttleRun SCROLL_THROTTLE_MS exampleScrolls throttle))
   \<and> map fst (throttleRun SCROLL_THROTTLE_MS exampleScrolls throttle) = [1700000001050, 1700000001250]
   \<and> eventBuffer (act (OnScroll 0 300) (scroll3World\<lparr>dateNow := 1700000001300\<rparr>)) =
       eventBuffer scroll3World
   \<and> map (\<lambda>c'. map_option timeoutId (throttledScroll c'))
         (captures (act (OnScroll 0 300) (scroll3World\<lparr>dateNow := 1700000001300\<rparr>))) =
       [Some (Some ((), 1700000001450))]
   \<and> map payload
         (eventBuffer (scrollTimeout 0
            ((act (OnScroll 0 300) (scroll3World\<lparr>dateNow := 1700000001300\<rparr>))\<lparr>dateNow := 1700000001450\<rparr>))) =
       map payload (eventBuffer scroll3World) @ [Scroll \<lparr>scrollX = 0, scrollY = 300\<rparr>]"
proof -
  let ?c = "\<lparr>captureSessionId = ''s1'', captureSequence = 2,
             configCaptureScrollEvents = True, configDebounceMs = 100, listeners = True,
             debouncedInput = None,
             throttledScroll = Some \<lparr>lastCall = 1700000001250, timeoutId = (None :: (unit \<times> int) option)\<rparr>\<rparr>"
  let ?w = "scroll3World\<lparr>dateNow := 1700000001300\<rparr>"
  have after: "throttleAfter SCROLL_THROTTLE_MS exampleScrolls throttle =
               \<lparr>lastCall = 1700000001250, timeoutId = None\<rparr>"
    by (simp add: exampleScrolls_def throttle_def throttled_def throttleTimeout_def
        SCROLL_THROTTLE_MS_def Let_def)
  have times: "map fst (throttleRun SCROLL_THROTTLE_MS exampleScrolls throttle) =
               [1700000001050, 1700000001250]"
    by (simp add: exampleScrolls_def throttle_def throttled_def throttleTimeout_def
        SCROLL_THROTTLE_MS_def Let_def)
  have h1: "timersOnTime SCROLL_THROTTLE_MS exampleScrolls throttle"
    by (simp add: exampleScrolls_def throttle_def throttled_def throttleTimeout_def
        SCROLL_THROTTLE_MS_def Let_def)
  have h2: "throttledScroll ?c = Some (throttleAfter SCROLL_THROTTLE_MS exampleScrolls throttle)"
    by (simp add: after)
  have h3: "captures ?w = [?c]" and h4: "listeners ?c"
    and h6: "isRecording ?w" and h7: "config ?w = Some exampleConfig"
    and h8: "chronicleSequence ?w < MAX_EVENTS_PER_SESSION"
    and h9: "Suc (length (eventBuffer ?w)) < MAX_EVENTS_IN_MEMORY"
    by (simp_all add: scroll3World_eq scroll2World_eq scroll1World_eq startedWorld_eq
        exampleWorld_def newWorld_def MAX_EVENTS_PER_SESSION_def MAX_EVENTS_IN_MEMORY_def)
  have h5: "dateNow ?w < lastCall (throttleAfter SCROLL_THROTTLE_MS exampleScrolls throttle) +
                        SCROLL_THROTTLE_MS"
    unfolding after by (simp add: SCROLL_THROTTLE_MS_def)
  from scroll_throttle_trailing_edge [OF h1 h2 h3 h4 h5 h6 h7 h8 h9, of 0 300 1700000001450] times
  show ?thesis
    unfolding after by (simp add: SCROLL_THROTTLE_MS_def)
qed

end
